theory Spec2Isabelle
  imports Complex_Main
begin

section \<open>Numbers\<close>

text \<open>
  Every numeric field of the program is a JavaScript \<open>number\<close>. Coordinates, speeds,
  radii and times are modelled as \<open>real\<close> (no rounding); the two counters \<open>ammo\<close> and
  \<open>score\<close>, which only ever hold the integer constants of \<open>constants.ts\<close> plus or minus
  integer steps, are modelled as \<open>int\<close>.

  The one place where the program divides by a value that can be zero is the missile
  update, \<open>MISSILE_SPEED / missile.distance\<close>. There the quotient, and the fields computed
  from it (\<open>progress\<close>, \<open>x\<close>, \<open>y\<close> of a missile), are of type \<open>number\<close>: a real, or one
  of the three special values of IEEE 754 arithmetic, with the rules JavaScript applies to
  them. The other divisors are the constants 100 and 8 and the half-life of an explosion,
  which is 15 or 30 for every explosion the program creates (\<open>explosions_wf_mounted\<close>
  below); these divisions are divisions of reals.
\<close>

datatype number = Fin real | PosInfinity | NegInfinity | NaN

text \<open>\<open>a / b\<close> on finite operands; \<open>b\<close> is a positive zero when it is zero (the result of
  \<open>Math.sqrt\<close> of a sum of squares).\<close>

definition divide_real :: "real \<Rightarrow> real \<Rightarrow> number" where
  "divide_real a b =
     (if b = 0 then (if 0 < a then PosInfinity else if a < 0 then NegInfinity else NaN)
      else Fin (a / b))"

fun num_add :: "number \<Rightarrow> number \<Rightarrow> number" where
  "num_add (Fin a) (Fin b) = Fin (a + b)"
| "num_add (Fin a) PosInfinity = PosInfinity"
| "num_add (Fin a) NegInfinity = NegInfinity"
| "num_add PosInfinity (Fin b) = PosInfinity"
| "num_add PosInfinity PosInfinity = PosInfinity"
| "num_add PosInfinity NegInfinity = NaN"
| "num_add NegInfinity (Fin b) = NegInfinity"
| "num_add NegInfinity NegInfinity = NegInfinity"
| "num_add NegInfinity PosInfinity = NaN"
| "num_add NaN _ = NaN"
| "num_add _ NaN = NaN"

fun num_mul :: "number \<Rightarrow> number \<Rightarrow> number" where
  "num_mul (Fin a) (Fin b) = Fin (a * b)"
| "num_mul (Fin a) PosInfinity =
     (if a = 0 then NaN else if 0 < a then PosInfinity else NegInfinity)"
| "num_mul (Fin a) NegInfinity =
     (if a = 0 then NaN else if 0 < a then NegInfinity else PosInfinity)"
| "num_mul PosInfinity (Fin b) =
     (if b = 0 then NaN else if 0 < b then PosInfinity else NegInfinity)"
| "num_mul NegInfinity (Fin b) =
     (if b = 0 then NaN else if 0 < b then NegInfinity else PosInfinity)"
| "num_mul PosInfinity PosInfinity = PosInfinity"
| "num_mul PosInfinity NegInfinity = NegInfinity"
| "num_mul NegInfinity PosInfinity = NegInfinity"
| "num_mul NegInfinity NegInfinity = PosInfinity"
| "num_mul NaN _ = NaN"
| "num_mul _ NaN = NaN"

text \<open>\<open>a >= b\<close> and \<open>a < b\<close>: every comparison with \<open>NaN\<close> is false.\<close>

fun num_ge :: "number \<Rightarrow> number \<Rightarrow> bool" where
  "num_ge (Fin a) (Fin b) = (b \<le> a)"
| "num_ge (Fin a) PosInfinity = False"
| "num_ge (Fin a) NegInfinity = True"
| "num_ge PosInfinity (Fin b) = True"
| "num_ge PosInfinity PosInfinity = True"
| "num_ge PosInfinity NegInfinity = True"
| "num_ge NegInfinity (Fin b) = False"
| "num_ge NegInfinity PosInfinity = False"
| "num_ge NegInfinity NegInfinity = True"
| "num_ge NaN _ = False"
| "num_ge _ NaN = False"

fun num_lt :: "number \<Rightarrow> number \<Rightarrow> bool" where
  "num_lt (Fin a) (Fin b) = (a < b)"
| "num_lt (Fin a) PosInfinity = True"
| "num_lt (Fin a) NegInfinity = False"
| "num_lt PosInfinity _ = False"
| "num_lt NegInfinity (Fin b) = True"
| "num_lt NegInfinity PosInfinity = True"
| "num_lt NegInfinity NegInfinity = False"
| "num_lt NaN _ = False"
| "num_lt _ NaN = False"


text \<open>\<open>Math.atan2(y, x)\<close> on real arguments (the two zeros are not told apart).\<close>

definition atan2 :: "real \<Rightarrow> real \<Rightarrow> real" where
  "atan2 y x =
     (if 0 < x then arctan (y / x)
      else if x < 0 \<and> 0 \<le> y then arctan (y / x) + pi
      else if x < 0 then arctan (y / x) - pi
      else if 0 < y then pi / 2
      else if y < 0 then - (pi / 2)
      else 0)"

text \<open>A value of \<open>Math.random()\<close>: a real in \<open>[0, 1)\<close>.\<close>

typedef random01 = "{u::real. 0 \<le> u \<and> u < 1}"
  by (rule exI [of _ 0]) simp

section \<open>Constants (\<open>constants.ts\<close>)\<close>

definition GAME_WIDTH :: real where "GAME_WIDTH = 800"
definition GAME_HEIGHT :: real where "GAME_HEIGHT = 600"
definition TURRET_AMMO_LEFT :: int where "TURRET_AMMO_LEFT = 20"
definition TURRET_AMMO_MIDDLE :: int where "TURRET_AMMO_MIDDLE = 40"
definition TURRET_AMMO_RIGHT :: int where "TURRET_AMMO_RIGHT = 20"
definition ROCKET_SPEED_MIN :: real where "ROCKET_SPEED_MIN = 0.5"
definition ROCKET_SPEED_MAX :: real where "ROCKET_SPEED_MAX = 1.5"
definition MISSILE_SPEED :: real where "MISSILE_SPEED = 5.5"
definition EXPLOSION_RADIUS_MAX :: real where "EXPLOSION_RADIUS_MAX = 46"
definition EXPLOSION_DURATION :: real where "EXPLOSION_DURATION = 60"
definition POINTS_PER_ROCKET :: int where "POINTS_PER_ROCKET = 20"
definition WIN_SCORE :: int where "WIN_SCORE = 1000"

section \<open>Entities (\<open>types.ts\<close>) and the state of the component\<close>

text \<open>
  The \<open>id\<close> strings of the entities are React keys only; no function of the engine reads
  them, and they are left out. Field names carry the entity's initial, since several
  interfaces share \<open>x\<close>, \<open>y\<close>, \<open>targetX\<close>, \<open>targetY\<close> and \<open>active\<close>.
\<close>

record Rocket =
  r_x :: real
  r_y :: real
  r_targetX :: real
  r_targetY :: real
  r_speed :: real
  r_angle :: real

record Missile =
  m_x :: number
  m_y :: number
  m_targetX :: real
  m_targetY :: real
  m_startX :: real
  m_startY :: real
  m_progress :: number
  m_distance :: real

record Explosion =
  e_x :: real
  e_y :: real
  e_radius :: real
  e_maxRadius :: real
  e_life :: real
  e_maxLife :: real

record City =
  c_x :: real
  c_y :: real
  c_active :: bool

record Turret =
  t_x :: real
  t_y :: real
  t_active :: bool
  t_ammo :: int
  t_maxAmmo :: int

datatype GameStatus = START | PLAYING | PAUSED | WON | LOST

text \<open>
  The state of \<open>App\<close>: the two React state variables \<open>gameState\<close> and \<open>score\<close> as of the
  latest render, and the contents of the refs.
\<close>

record GameState =
  gameState :: GameStatus
  score :: int
  rockets :: "Rocket list"
  missiles :: "Missile list"
  explosions :: "Explosion list"
  cities :: "City list"
  turrets :: "Turret list"
  lastSpawnTime :: real

text \<open>The component as first mounted.\<close>

definition mounted :: GameState where
  "mounted = \<lparr>gameState = START, score = 0, rockets = [], missiles = [], explosions = [],
     cities = [], turrets = [], lastSpawnTime = 0\<rparr>"

section \<open>\<open>initGame\<close>\<close>

definition citySpacing :: real where
  "citySpacing = GAME_WIDTH / 8"

definition cityX :: "nat \<Rightarrow> real" where
  "cityX i =
     (let x = (real i + 1) * citySpacing;
          x = (if 2 \<le> i then x + citySpacing else x);
          x = (if 4 \<le> i then x + citySpacing else x)
      in x)"

definition initCities :: "City list" where
  "initCities = map (\<lambda>i. \<lparr>c_x = cityX i, c_y = GAME_HEIGHT - 20, c_active = True\<rparr>) [0..<6]"

definition initTurrets :: "Turret list" where
  "initTurrets =
     [\<lparr>t_x = 40, t_y = GAME_HEIGHT - 30, t_active = True,
        t_ammo = TURRET_AMMO_LEFT, t_maxAmmo = TURRET_AMMO_LEFT\<rparr>,
      \<lparr>t_x = GAME_WIDTH / 2, t_y = GAME_HEIGHT - 30, t_active = True,
        t_ammo = TURRET_AMMO_MIDDLE, t_maxAmmo = TURRET_AMMO_MIDDLE\<rparr>,
      \<lparr>t_x = GAME_WIDTH - 40, t_y = GAME_HEIGHT - 30, t_active = True,
        t_ammo = TURRET_AMMO_RIGHT, t_maxAmmo = TURRET_AMMO_RIGHT\<rparr>]"

text \<open>\<open>now\<close> is the value of \<open>performance.now()\<close>.\<close>

definition initGame :: "real \<Rightarrow> GameState \<Rightarrow> GameState" where
  "initGame now s =
     s\<lparr>score := 0, gameState := PLAYING, cities := initCities, turrets := initTurrets,
       rockets := [], missiles := [], explosions := [], lastSpawnTime := now\<rparr>"

section \<open>\<open>spawnRocket\<close>\<close>

text \<open>The three \<open>Math.random()\<close> values \<open>spawnRocket\<close> reads, in the order it reads them.\<close>

record Draws =
  u_startX :: random01
  u_target :: random01
  u_speed :: random01

definition spawnTargets :: "GameState \<Rightarrow> (real \<times> real) list" where
  "spawnTargets s =
     map (\<lambda>c. (c_x c, c_y c)) (filter c_active (cities s)) @
     map (\<lambda>t. (t_x t, t_y t)) (filter t_active (turrets s))"

definition spawnRocket :: "Draws \<Rightarrow> GameState \<Rightarrow> GameState" where
  "spawnRocket d s =
     (let startX = Rep_random01 (u_startX d) * GAME_WIDTH;
          startY = - 20;
          targets = spawnTargets s
      in if length targets = 0 then s
         else
           let target = targets ! nat \<lfloor>Rep_random01 (u_target d) * real (length targets)\<rfloor>;
               speed = ROCKET_SPEED_MIN
                         + Rep_random01 (u_speed d) * (ROCKET_SPEED_MAX - ROCKET_SPEED_MIN);
               angle = atan2 (snd target - startY) (fst target - startX)
           in s\<lparr>rockets := rockets s @
                  [\<lparr>r_x = startX, r_y = startY, r_targetX = fst target,
                    r_targetY = snd target, r_speed = speed, r_angle = angle\<rparr>]\<rparr>)"

section \<open>\<open>fireMissile\<close>\<close>

text \<open>
  The \<open>forEach\<close> over the turrets: the accumulator is the pair of local variables
  \<open>bestTurret\<close> (the index of the turret object it refers to, \<open>None\<close> for \<open>null\<close>) and
  \<open>minDist\<close> (initially \<open>Infinity\<close>); \<open>i\<close> is the index of the head of the list.
  \<open>eligible\<close> names the test \<open>turret.active && turret.ammo > 0\<close> of the loop body.
\<close>

definition eligible :: "Turret \<Rightarrow> bool" where
  "eligible turret \<longleftrightarrow> t_active turret \<and> 0 < t_ammo turret"

fun closestTurret ::
  "real \<Rightarrow> Turret list \<Rightarrow> nat \<Rightarrow> nat option \<times> number \<Rightarrow> nat option \<times> number" where
  "closestTurret targetX [] i acc = acc"
| "closestTurret targetX (turret # ts) i (bestTurret, minDist) =
     (if eligible turret then
        (let dist = \<bar>t_x turret - targetX\<bar>
         in if num_lt (Fin dist) minDist
            then closestTurret targetX ts (Suc i) (Some i, Fin dist)
            else closestTurret targetX ts (Suc i) (bestTurret, minDist))
      else closestTurret targetX ts (Suc i) (bestTurret, minDist))"

definition fireMissile :: "real \<Rightarrow> real \<Rightarrow> GameState \<Rightarrow> GameState" where
  "fireMissile targetX targetY s =
     (if gameState s \<noteq> PLAYING then s
      else case fst (closestTurret targetX (turrets s) 0 (None, PosInfinity)) of
        None \<Rightarrow> s
      | Some i \<Rightarrow>
         (let turret = turrets s ! i;
              dist = sqrt ((targetX - t_x turret)\<^sup>2 + (targetY - t_y turret)\<^sup>2)
          in s\<lparr>turrets := (turrets s)[i := turret\<lparr>t_ammo := t_ammo turret - 1\<rparr>],
               missiles := missiles s @
                 [\<lparr>m_x = Fin (t_x turret), m_y = Fin (t_y turret),
                   m_targetX = targetX, m_targetY = targetY,
                   m_startX = t_x turret, m_startY = t_y turret,
                   m_progress = Fin 0, m_distance = dist\<rparr>]\<rparr>))"

section \<open>\<open>update\<close>\<close>

subsection \<open>Spawn rockets\<close>

definition spawnRate :: "int \<Rightarrow> real" where
  "spawnRate sc = max 500 (2000 - (real_of_int sc / 100) * 100)"

definition spawnPhase :: "real \<Rightarrow> Draws \<Rightarrow> GameState \<Rightarrow> GameState" where
  "spawnPhase time d s =
     (if time - lastSpawnTime s > spawnRate (score s)
      then (spawnRocket d s)\<lparr>lastSpawnTime := time\<rparr>
      else s)"

subsection \<open>Update rockets\<close>

definition moveRocket :: "Rocket \<Rightarrow> Rocket" where
  "moveRocket rocket =
     rocket\<lparr>r_x := r_x rocket + cos (r_angle rocket) * r_speed rocket,
            r_y := r_y rocket + sin (r_angle rocket) * r_speed rocket\<rparr>"

definition distToTarget :: "Rocket \<Rightarrow> real" where
  "distToTarget rocket =
     sqrt ((r_x rocket - r_targetX rocket)\<^sup>2 + (r_y rocket - r_targetY rocket)\<^sup>2)"

definition hitCity :: "Rocket \<Rightarrow> City \<Rightarrow> City" where
  "hitCity rocket city =
     (if c_active city \<and> \<bar>c_x city - r_x rocket\<bar> < 10 \<and> \<bar>c_y city - r_y rocket\<bar> < 10
      then city\<lparr>c_active := False\<rparr> else city)"

definition hitTurret :: "Rocket \<Rightarrow> Turret \<Rightarrow> Turret" where
  "hitTurret rocket turret =
     (if t_active turret \<and> \<bar>t_x turret - r_x rocket\<bar> < 15 \<and> \<bar>t_y turret - r_y rocket\<bar> < 15
      then turret\<lparr>t_active := False\<rparr> else turret)"

definition impactExplosion :: "Rocket \<Rightarrow> Explosion" where
  "impactExplosion rocket =
     \<lparr>e_x = r_x rocket, e_y = r_y rocket, e_radius = 0, e_maxRadius = 20,
      e_life = 0, e_maxLife = 30\<rparr>"

text \<open>
  The \<open>filter\<close> over \<open>rocketsRef.current\<close>. Its callback moves the rocket, and on impact
  writes to the cities, the turrets and the explosions, which are therefore threaded
  through the loop; the result is the list of rockets kept and the three collections.
\<close>

fun updateRockets ::
  "Rocket list \<Rightarrow> City list \<Rightarrow> Turret list \<Rightarrow> Explosion list \<Rightarrow>
   Rocket list \<times> City list \<times> Turret list \<times> Explosion list" where
  "updateRockets [] cs ts es = ([], cs, ts, es)"
| "updateRockets (rocket # rs) cs ts es =
     (let rocket' = moveRocket rocket
      in if distToTarget rocket' < 5 then
           updateRockets rs (map (hitCity rocket') cs) (map (hitTurret rocket') ts)
             (es @ [impactExplosion rocket'])
         else
           (case updateRockets rs cs ts es of
              (rs', cs', ts', es') \<Rightarrow>
                (if r_y rocket' < GAME_HEIGHT then rocket' # rs' else rs', cs', ts', es')))"

definition rocketsPhase :: "GameState \<Rightarrow> GameState" where
  "rocketsPhase s =
     (case updateRockets (rockets s) (cities s) (turrets s) (explosions s) of
        (rs, cs, ts, es) \<Rightarrow> s\<lparr>rockets := rs, cities := cs, turrets := ts, explosions := es\<rparr>)"

subsection \<open>Update missiles\<close>

definition moveMissile :: "Missile \<Rightarrow> Missile" where
  "moveMissile missile =
     (let progress = num_add (m_progress missile)
                       (divide_real MISSILE_SPEED (m_distance missile))
      in missile\<lparr>m_progress := progress,
           m_x := num_add (Fin (m_startX missile))
                    (num_mul (Fin (m_targetX missile - m_startX missile)) progress),
           m_y := num_add (Fin (m_startY missile))
                    (num_mul (Fin (m_targetY missile - m_startY missile)) progress)\<rparr>)"

definition detonation :: "Missile \<Rightarrow> Explosion" where
  "detonation missile =
     \<lparr>e_x = m_targetX missile, e_y = m_targetY missile, e_radius = 0,
      e_maxRadius = EXPLOSION_RADIUS_MAX, e_life = 0, e_maxLife = EXPLOSION_DURATION\<rparr>"

fun updateMissiles :: "Missile list \<Rightarrow> Explosion list \<Rightarrow> Missile list \<times> Explosion list" where
  "updateMissiles [] es = ([], es)"
| "updateMissiles (missile # ms) es =
     (let missile' = moveMissile missile
      in if num_ge (m_progress missile') (Fin 1) then
           updateMissiles ms (es @ [detonation missile'])
         else
           (case updateMissiles ms es of (ms', es') \<Rightarrow> (missile' # ms', es')))"

definition missilesPhase :: "GameState \<Rightarrow> GameState" where
  "missilesPhase s =
     (case updateMissiles (missiles s) (explosions s) of
        (ms, es) \<Rightarrow> s\<lparr>missiles := ms, explosions := es\<rparr>)"

subsection \<open>Update explosions\<close>

definition growExplosion :: "Explosion \<Rightarrow> Explosion" where
  "growExplosion expl =
     (let life = e_life expl + 1;
          halfLife = e_maxLife expl / 2
      in expl\<lparr>e_life := life,
             e_radius := (if life \<le> halfLife then (life / halfLife) * e_maxRadius expl
                          else (1 - (life - halfLife) / halfLife) * e_maxRadius expl)\<rparr>)"

definition inBlast :: "Explosion \<Rightarrow> Rocket \<Rightarrow> bool" where
  "inBlast expl rocket \<longleftrightarrow>
     sqrt ((r_x rocket - e_x expl)\<^sup>2 + (r_y rocket - e_y expl)\<^sup>2) < e_radius expl"

text \<open>
  The inner \<open>filter\<close> over the rockets, for one explosion: \<open>sc\<close> is the score with the
  queued \<open>setScore(prev => prev + POINTS_PER_ROCKET)\<close> updates applied.
\<close>

fun blastRockets :: "Explosion \<Rightarrow> Rocket list \<Rightarrow> int \<Rightarrow> Rocket list \<times> int" where
  "blastRockets expl [] sc = ([], sc)"
| "blastRockets expl (rocket # rs) sc =
     (if inBlast expl rocket then blastRockets expl rs (sc + POINTS_PER_ROCKET)
      else (case blastRockets expl rs sc of (rs', sc') \<Rightarrow> (rocket # rs', sc')))"

fun updateExplosions ::
  "Explosion list \<Rightarrow> Rocket list \<Rightarrow> int \<Rightarrow> Explosion list \<times> Rocket list \<times> int" where
  "updateExplosions [] rs sc = ([], rs, sc)"
| "updateExplosions (expl # es) rs sc =
     (let expl' = growExplosion expl
      in case blastRockets expl' rs sc of
           (rs', sc') \<Rightarrow>
             (case updateExplosions es rs' sc' of
                (es', rs'', sc'') \<Rightarrow>
                  (if e_life expl' < e_maxLife expl' then expl' # es' else es', rs'', sc'')))"

definition explosionsPhase :: "GameState \<Rightarrow> GameState" where
  "explosionsPhase s =
     (case updateExplosions (explosions s) (rockets s) (score s) of
        (es, rs, sc) \<Rightarrow> s\<lparr>explosions := es, rockets := rs, score := sc\<rparr>)"

subsection \<open>Check win and loss, and the whole step\<close>

text \<open>
  \<open>sc\<close> is the constant \<open>score\<close> of the closure, the score of the render that created this
  \<open>update\<close>; the two \<open>setGameState\<close> calls are applied in the order they are made.
\<close>

definition checkWinLoss :: "int \<Rightarrow> GameState \<Rightarrow> GameState" where
  "checkWinLoss sc s =
     (let activeTurrets = filter t_active (turrets s);
          s1 = (if length activeTurrets = 0 then s\<lparr>gameState := LOST\<rparr> else s);
          s2 = (if WIN_SCORE \<le> sc then s1\<lparr>gameState := WON\<rparr> else s1)
      in s2)"

text \<open>
  One call of \<open>update(time)\<close> followed by the render that commits the state updates it
  queued. The closure's \<open>gameState\<close> and \<open>score\<close> are those of the state the step starts
  from.
\<close>

definition update :: "real \<Rightarrow> Draws \<Rightarrow> GameState \<Rightarrow> GameState" where
  "update time d s =
     (if gameState s \<noteq> PLAYING then s
      else checkWinLoss (score s)
             (explosionsPhase (missilesPhase (rocketsPhase (spawnPhase time d s)))))"

section \<open>Runs\<close>

text \<open>
  The handlers of the component: the start and replay buttons (\<open>initGame\<close>), a click on the
  canvas (\<open>fireMissile\<close>), an animation frame (\<open>update\<close>), and the pause, resume and
  back-to-start buttons, which set \<open>gameState\<close>. The buttons are rendered in some statuses
  only (pause while \<open>PLAYING\<close>, resume while \<open>PAUSED\<close>, start on the start screen, replay
  and back-to-start on the end screens); the handlers themselves do not test the status, and
  a run here is any sequence of handler calls, which includes every sequence the interface
  allows.
\<close>

datatype Event =
    InitGame real
  | Fire real real
  | Frame real Draws
  | Pause
  | Resume
  | BackToStart

fun handle :: "GameState \<Rightarrow> Event \<Rightarrow> GameState" where
  "handle s (InitGame now) = initGame now s"
| "handle s (Fire targetX targetY) = fireMissile targetX targetY s"
| "handle s (Frame time d) = update time d s"
| "handle s Pause = s\<lparr>gameState := PAUSED\<rparr>"
| "handle s Resume = s\<lparr>gameState := PLAYING\<rparr>"
| "handle s BackToStart = s\<lparr>gameState := START\<rparr>"

definition run :: "GameState \<Rightarrow> Event list \<Rightarrow> GameState" where
  "run s evs = foldl handle s evs"

fun isInitGame :: "Event \<Rightarrow> bool" where
  "isInitGame (InitGame now) = True"
| "isInitGame _ = False"

section \<open>Predicates and states used in the statements\<close>

text \<open>
  \<open>closest_at targetX ts k\<close>: the turret at index \<open>k\<close> is eligible, no eligible turret is
  horizontally closer to \<open>targetX\<close>, and every eligible turret before it is strictly
  farther.
\<close>

definition closest_at :: "real \<Rightarrow> Turret list \<Rightarrow> nat \<Rightarrow> bool" where
  "closest_at targetX ts k \<longleftrightarrow>
     k < length ts \<and> eligible (ts ! k) \<and>
     (\<forall>j<length ts. eligible (ts ! j) \<longrightarrow>
        \<bar>t_x (ts ! k) - targetX\<bar> \<le> \<bar>t_x (ts ! j) - targetX\<bar>) \<and>
     (\<forall>j<k. eligible (ts ! j) \<longrightarrow>
        \<bar>t_x (ts ! k) - targetX\<bar> < \<bar>t_x (ts ! j) - targetX\<bar>)"

definition draws0 :: Draws where
  "draws0 = \<lparr>u_startX = Abs_random01 0, u_target = Abs_random01 0, u_speed = Abs_random01 0\<rparr>"

text \<open>
  A game at 1000 points whose only active turret is the middle one, with a rocket 4.5 units
  above it, falling straight down at speed 1.
\<close>

definition lastTurretState :: GameState where
  "lastTurretState =
     \<lparr>gameState = PLAYING, score = 1000,
      rockets = [\<lparr>r_x = 400, r_y = 565.5, r_targetX = 400, r_targetY = 570, r_speed = 1,
                  r_angle = pi / 2\<rparr>],
      missiles = [], explosions = [], cities = initCities,
      turrets = [(initTurrets ! 0)\<lparr>t_active := False\<rparr>, initTurrets ! 1,
                 (initTurrets ! 2)\<lparr>t_active := False\<rparr>],
      lastSpawnTime = 0\<rparr>"

text \<open>
  A game at 980 points with all turrets active: a rocket falling straight down towards
  the middle turret, and a detonation explosion one step before its peak, centred one unit
  below the rocket.
\<close>

definition lastKillState :: GameState where
  "lastKillState =
     \<lparr>gameState = PLAYING, score = 980,
      rockets = [\<lparr>r_x = 400, r_y = 100, r_targetX = 400, r_targetY = 570, r_speed = 1,
                  r_angle = pi / 2\<rparr>],
      missiles = [],
      explosions = [\<lparr>e_x = 400, e_y = 101, e_radius = (29 / 30) * 46, e_maxRadius = 46,
                     e_life = 29, e_maxLife = 60\<rparr>],
      cities = initCities, turrets = initTurrets, lastSpawnTime = 0\<rparr>"

text \<open>The rockets of \<open>rs\<close> that hit their target in this step, after they moved.\<close>

definition impacts :: "Rocket list \<Rightarrow> Rocket list" where
  "impacts rs = filter (\<lambda>rocket. distToTarget rocket < 5) (map moveRocket rs)"

text \<open>The box tests of the impact branch, with half-widths 10 (cities) and 15 (turrets).\<close>

definition nearCity :: "City \<Rightarrow> Rocket \<Rightarrow> bool" where
  "nearCity city rocket \<longleftrightarrow>
     \<bar>c_x city - r_x rocket\<bar> < 10 \<and> \<bar>c_y city - r_y rocket\<bar> < 10"

definition nearTurret :: "Turret \<Rightarrow> Rocket \<Rightarrow> bool" where
  "nearTurret turret rocket \<longleftrightarrow>
     \<bar>t_x turret - r_x rocket\<bar> < 15 \<and> \<bar>t_y turret - r_y rocket\<bar> < 15"

text \<open>Every turret holds between 0 and \<open>maxAmmo\<close> rounds.\<close>

definition ammo_ok :: "GameState \<Rightarrow> bool" where
  "ammo_ok s \<longleftrightarrow> (\<forall>turret\<in>set (turrets s). 0 \<le> t_ammo turret \<and> t_ammo turret \<le> t_maxAmmo turret)"

text \<open>
  \<open>ammo_step ts ts'\<close>: the same turret slots, the same capacities, no ammo raised and no
  non-negative ammo made negative.
\<close>

definition ammo_step :: "Turret list \<Rightarrow> Turret list \<Rightarrow> bool" where
  "ammo_step ts ts' \<longleftrightarrow>
     length ts' = length ts \<and>
     (\<forall>i<length ts. t_maxAmmo (ts' ! i) = t_maxAmmo (ts ! i) \<and>
        t_ammo (ts' ! i) \<le> t_ammo (ts ! i) \<and>
        (0 \<le> t_ammo (ts ! i) \<longrightarrow> 0 \<le> t_ammo (ts' ! i)))"

text \<open>
  The rockets of \<open>rs\<close> that no explosion of \<open>es\<close> reaches in this step, each explosion
  taken with the radius it has after its update.
\<close>

definition survivors :: "Explosion list \<Rightarrow> Rocket list \<Rightarrow> Rocket list" where
  "survivors es rs =
     filter (\<lambda>rocket. \<forall>expl\<in>set es. \<not> inBlast (growExplosion expl) rocket) rs"

text \<open>
  The triangular envelope as the specification words it: linear from 0 to \<open>maxRadius\<close>
  over the first half of the lifetime, linear back to 0 over the second half.
\<close>

definition envelope :: "real \<Rightarrow> real \<Rightarrow> real \<Rightarrow> real" where
  "envelope maxLife maxRadius life =
     (let halfLife = maxLife / 2
      in if life \<le> halfLife then (life / halfLife) * maxRadius
         else (1 - (life - halfLife) / halfLife) * maxRadius)"

text \<open>The explosions left by one explosion phase (it does not depend on the rockets).\<close>

definition stepExplosions :: "Explosion list \<Rightarrow> Explosion list" where
  "stepExplosions es = fst (updateExplosions es [] 0)"

text \<open>
  A game with no rocket in flight and a detonation explosion about to reach its peak
  radius of 46, centred on the middle turret; the city at \<open>(400, 580)\<close> is 10 units away.
\<close>

definition blastOverTurretState :: GameState where
  "blastOverTurretState =
     \<lparr>gameState = PLAYING, score = 0, rockets = [], missiles = [],
      explosions = [\<lparr>e_x = 400, e_y = 570, e_radius = (29 / 30) * 46, e_maxRadius = 46,
                     e_life = 29, e_maxLife = 60\<rparr>],
      cities = initCities, turrets = initTurrets, lastSpawnTime = 0\<rparr>"

text \<open>
  Every explosion has one of the two lifetimes the program gives an explosion, so that the
  half-life the radius formula divides by is not zero.
\<close>

definition explosions_wf :: "GameState \<Rightarrow> bool" where
  "explosions_wf s \<longleftrightarrow> (\<forall>expl\<in>set (explosions s). e_maxLife expl = 30 \<or> e_maxLife expl = 60)"

text \<open>
  A game with four rockets falling in one column towards the middle turret, at speed 1, and
  two detonation explosions on that column. After the rockets have moved to heights 101,
  131, 147 and 200, the first explosion (centre \<open>(400, 101)\<close>, then at its peak radius 46)
  reaches the first two rockets, at distances 0 and 30; the third is at distance 46 exactly,
  the fourth at 99. The second explosion (centre \<open>(400, 110)\<close>, then at radius
  \<open>(13 / 30) * 46\<close>, a little under 20) reaches only the first rocket, at distance 9.
\<close>

definition columnState :: GameState where
  "columnState =
     \<lparr>gameState = PLAYING, score = 0,
      rockets = [\<lparr>r_x = 400, r_y = 100, r_targetX = 400, r_targetY = 570, r_speed = 1,
                  r_angle = pi / 2\<rparr>,
                 \<lparr>r_x = 400, r_y = 130, r_targetX = 400, r_targetY = 570, r_speed = 1,
                  r_angle = pi / 2\<rparr>,
                 \<lparr>r_x = 400, r_y = 146, r_targetX = 400, r_targetY = 570, r_speed = 1,
                  r_angle = pi / 2\<rparr>,
                 \<lparr>r_x = 400, r_y = 199, r_targetX = 400, r_targetY = 570, r_speed = 1,
                  r_angle = pi / 2\<rparr>],
      missiles = [],
      explosions = [\<lparr>e_x = 400, e_y = 101, e_radius = (29 / 30) * 46, e_maxRadius = 46,
                     e_life = 29, e_maxLife = 60\<rparr>,
                    \<lparr>e_x = 400, e_y = 110, e_radius = (12 / 30) * 46, e_maxRadius = 46,
                     e_life = 12, e_maxLife = 60\<rparr>],
      cities = initCities, turrets = initTurrets, lastSpawnTime = 0\<rparr>"

section \<open>Auxiliary facts\<close>

lemma sqrt_less_iff_sq: "0 \<le> c \<Longrightarrow> sqrt a < c \<longleftrightarrow> a < c\<^sup>2"
  by (metis real_sqrt_less_iff real_sqrt_abs abs_of_nonneg)

lemma phases_gameState [simp]:
  "gameState (spawnPhase time d s) = gameState s"
  "gameState (rocketsPhase s) = gameState s"
  "gameState (missilesPhase s) = gameState s"
  "gameState (explosionsPhase s) = gameState s"
  by (simp_all add: spawnPhase_def spawnRocket_def Let_def rocketsPhase_def missilesPhase_def
      explosionsPhase_def split: prod.splits)

lemma checkWinLoss_turrets [simp]: "turrets (checkWinLoss sc s) = turrets s"
  by (simp add: checkWinLoss_def Let_def)

lemma update_playing:
  "gameState s = PLAYING \<Longrightarrow>
   update time d s =
     checkWinLoss (score s)
       (explosionsPhase (missilesPhase (rocketsPhase (spawnPhase time d s))))"
  by (simp add: update_def)

lemmas step_defs =
  update_def checkWinLoss_def explosionsPhase_def missilesPhase_def rocketsPhase_def
  spawnPhase_def spawnRate_def Let_def moveRocket_def distToTarget_def hitCity_def
  hitTurret_def impactExplosion_def growExplosion_def inBlast_def sqrt_less_iff_sq
  power_divide

lemmas const_defs =
  GAME_WIDTH_def GAME_HEIGHT_def TURRET_AMMO_LEFT_def TURRET_AMMO_MIDDLE_def
  TURRET_AMMO_RIGHT_def ROCKET_SPEED_MIN_def ROCKET_SPEED_MAX_def MISSILE_SPEED_def
  EXPLOSION_RADIUS_MAX_def EXPLOSION_DURATION_def POINTS_PER_ROCKET_def WIN_SCORE_def

section \<open>The win and loss checks\<close>

text \<open>
  C1, as stated, fails: in \<open>lastTurretState\<close> the step destroys the last active turret
  while the score is 1000, so both end-of-step conditions hold, and the resulting status is
  \<open>WON\<close>, not \<open>LOST\<close>. The loss check does run first, but the win check that follows is
  not an \<open>else\<close> branch and its \<open>setGameState\<close> is applied last.
\<close>

theorem loss_precedence_counterexample:
  "gameState lastTurretState = PLAYING \<and>
   filter t_active (turrets (update 16 draws0 lastTurretState)) = [] \<and>
   WIN_SCORE \<le> score lastTurretState \<and>
   WIN_SCORE \<le> score (update 16 draws0 lastTurretState) \<and>
   gameState (update 16 draws0 lastTurretState) = WON"
  by (simp add: lastTurretState_def initTurrets_def initCities_def step_defs const_defs)

text \<open>
  C1, amended: for every step executed in status \<open>PLAYING\<close> after which no turret is
  active, the resulting status is \<open>WON\<close> when the score the step reads (the score at the
  start of the step) is at least \<open>WIN_SCORE\<close>, because the win check is evaluated after the
  loss check and overrides it; the resulting status is \<open>LOST\<close> when that score is below
  \<open>WIN_SCORE\<close>.
\<close>

theorem win_check_overrides_loss:
  assumes "gameState s = PLAYING"
    and "filter t_active (turrets (update time d s)) = []"
  shows "(WIN_SCORE \<le> score s \<longrightarrow> gameState (update time d s) = WON) \<and>
         (score s < WIN_SCORE \<longrightarrow> gameState (update time d s) = LOST)"
  using assms by (simp add: update_playing) (simp add: checkWinLoss_def Let_def)

theorem win_check_overrides_loss_witness:
  "gameState lastTurretState = PLAYING \<and>
   filter t_active (turrets (update 16 draws0 lastTurretState)) = [] \<and>
   WIN_SCORE \<le> score lastTurretState \<and>
   gameState (update 16 draws0 lastTurretState) = WON"
proof -
  have playing: "gameState lastTurretState = PLAYING"
    by (simp add: lastTurretState_def)
  have none: "filter t_active (turrets (update 16 draws0 lastTurretState)) = []"
    by (simp add: lastTurretState_def initTurrets_def initCities_def step_defs const_defs)
  have sc: "WIN_SCORE \<le> score lastTurretState"
    by (simp add: lastTurretState_def WIN_SCORE_def)
  from win_check_overrides_loss [OF playing none] sc playing none show ?thesis
    by blast
qed

text \<open>
  C2, as stated, fails: in \<open>lastKillState\<close> the step destroys a rocket and brings the score
  from 980 to 1000, yet the status stays \<open>PLAYING\<close>. The win check compares the constant
  \<open>score\<close> of the closure, which does not include the points queued by \<open>setScore\<close> during
  the same step.
\<close>

theorem win_same_step_counterexample:
  "gameState lastKillState = PLAYING \<and>
   score (update 16 draws0 lastKillState) = 1000 \<and>
   WIN_SCORE \<le> score (update 16 draws0 lastKillState) \<and>
   gameState (update 16 draws0 lastKillState) = PLAYING"
  by (simp add: lastKillState_def initTurrets_def initCities_def step_defs const_defs)

text \<open>
  C2, amended: for every step executed in status \<open>PLAYING\<close>, the step transitions the
  status to \<open>WON\<close> exactly when the score at the start of the step (not including the
  points awarded during that same step) is at least \<open>WIN_SCORE\<close>; the check is evaluated on
  every step.
\<close>

theorem won_iff_score_at_step_start:
  assumes "gameState s = PLAYING"
  shows "gameState (update time d s) = WON \<longleftrightarrow> WIN_SCORE \<le> score s"
  using assms by (simp add: update_playing) (simp add: checkWinLoss_def Let_def)

theorem won_iff_score_at_step_start_witness:
  "gameState lastKillState = PLAYING \<and>
   (gameState (update 16 draws0 lastKillState) = WON \<longleftrightarrow> WIN_SCORE \<le> score lastKillState) \<and>
   \<not> WIN_SCORE \<le> score lastKillState"
proof -
  have playing: "gameState lastKillState = PLAYING"
    by (simp add: lastKillState_def)
  have "\<not> WIN_SCORE \<le> score lastKillState"
    by (simp add: lastKillState_def WIN_SCORE_def)
  with won_iff_score_at_step_start [OF playing, of 16 draws0] playing show ?thesis
    by blast
qed

section \<open>\<open>fireMissile\<close>: which turret fires\<close>

lemma num_lt_trans_Fin:
  "num_lt (Fin a) (Fin b) \<Longrightarrow> num_lt (Fin b) m \<Longrightarrow> num_lt (Fin a) m"
  by (cases m) auto

lemma num_lt_not_lt:
  "num_lt (Fin a) m \<Longrightarrow> \<not> num_lt (Fin b) m \<Longrightarrow> a < b"
  by (cases m) auto

lemma closestTurret_char:
  "(closestTurret targetX ts i (b, m) = (b, m) \<and>
      (\<forall>j<length ts. eligible (ts ! j) \<longrightarrow> \<not> num_lt (Fin \<bar>t_x (ts ! j) - targetX\<bar>) m)) \<or>
   (\<exists>k. closest_at targetX ts k \<and> num_lt (Fin \<bar>t_x (ts ! k) - targetX\<bar>) m \<and>
      closestTurret targetX ts i (b, m) = (Some (i + k), Fin \<bar>t_x (ts ! k) - targetX\<bar>))"
proof (induction ts arbitrary: i b m)
  case Nil
  then show ?case by simp
next
  case (Cons t ts)
  let ?d = "\<lambda>u. \<bar>t_x u - targetX\<bar>"
  show ?case
  proof (cases "eligible t \<and> num_lt (Fin (?d t)) m")
    case True
    then have step: "closestTurret targetX (t # ts) i (b, m) =
        closestTurret targetX ts (Suc i) (Some i, Fin (?d t))"
      by (simp add: Let_def)
    from Cons.IH [of "Suc i" "Some i" "Fin (?d t)"] show ?thesis
    proof (elim disjE conjE exE)
      assume same: "closestTurret targetX ts (Suc i) (Some i, Fin (?d t)) = (Some i, Fin (?d t))"
        and none: "\<forall>j<length ts. eligible (ts ! j) \<longrightarrow> \<not> num_lt (Fin (?d (ts ! j))) (Fin (?d t))"
      have "closest_at targetX (t # ts) 0"
        unfolding closest_at_def using True none
        by (auto simp: nth_Cons split: nat.splits)
      with True step same show ?thesis
        by (intro disjI2 exI [of _ 0]) simp
    next
      fix k
      assume k: "closest_at targetX ts k"
        and lt: "num_lt (Fin (?d (ts ! k))) (Fin (?d t))"
        and res: "closestTurret targetX ts (Suc i) (Some i, Fin (?d t)) =
                    (Some (Suc i + k), Fin (?d (ts ! k)))"
      have "closest_at targetX (t # ts) (Suc k)"
        using k lt unfolding closest_at_def
        by (auto simp: nth_Cons less_Suc_eq_0_disj split: nat.splits)
      moreover have "num_lt (Fin (?d ((t # ts) ! Suc k))) m"
        using lt True by (auto intro: num_lt_trans_Fin)
      ultimately show ?thesis using step res
        by (intro disjI2 exI [of _ "Suc k"]) simp
    qed
  next
    case False
    then have step: "closestTurret targetX (t # ts) i (b, m) =
        closestTurret targetX ts (Suc i) (b, m)"
      by (auto simp: Let_def)
    from Cons.IH [of "Suc i" b m] show ?thesis
    proof (elim disjE conjE exE)
      assume same: "closestTurret targetX ts (Suc i) (b, m) = (b, m)"
        and none: "\<forall>j<length ts. eligible (ts ! j) \<longrightarrow> \<not> num_lt (Fin (?d (ts ! j))) m"
      from False none have "\<forall>j<length (t # ts). eligible ((t # ts) ! j) \<longrightarrow>
          \<not> num_lt (Fin (?d ((t # ts) ! j))) m"
        by (auto simp: nth_Cons split: nat.splits)
      with step same show ?thesis by simp
    next
      fix k
      assume k: "closest_at targetX ts k"
        and lt: "num_lt (Fin (?d (ts ! k))) m"
        and res: "closestTurret targetX ts (Suc i) (b, m) =
                    (Some (Suc i + k), Fin (?d (ts ! k)))"
      have head: "eligible t \<Longrightarrow> ?d (ts ! k) < ?d t"
        using False lt by (auto dest: num_lt_not_lt)
      have "closest_at targetX (t # ts) (Suc k)"
        using k head unfolding closest_at_def
        by (auto simp: nth_Cons less_Suc_eq_0_disj split: nat.splits)
      with lt step res show ?thesis
        by (intro disjI2 exI [of _ "Suc k"]) simp
    qed
  qed
qed

lemma closestTurret_start:
  "(fst (closestTurret targetX ts 0 (None, PosInfinity)) = None \<and>
      (\<forall>t\<in>set ts. \<not> eligible t)) \<or>
   (\<exists>k. closest_at targetX ts k \<and>
      fst (closestTurret targetX ts 0 (None, PosInfinity)) = Some k)"
  using closestTurret_char [of targetX ts 0 None PosInfinity]
  by (auto simp: in_set_conv_nth)

lemma closest_at_unique:
  assumes "closest_at targetX ts i" and "closest_at targetX ts k"
  shows "i = k"
proof (rule ccontr)
  assume "i \<noteq> k"
  then consider "i < k" | "k < i" by linarith
  then show False
  proof cases
    case 1
    with assms have "\<bar>t_x (ts ! k) - targetX\<bar> < \<bar>t_x (ts ! i) - targetX\<bar>"
      and "\<bar>t_x (ts ! i) - targetX\<bar> \<le> \<bar>t_x (ts ! k) - targetX\<bar>"
      by (auto simp: closest_at_def)
    then show False by simp
  next
    case 2
    with assms have "\<bar>t_x (ts ! i) - targetX\<bar> < \<bar>t_x (ts ! k) - targetX\<bar>"
      and "\<bar>t_x (ts ! k) - targetX\<bar> \<le> \<bar>t_x (ts ! i) - targetX\<bar>"
      by (auto simp: closest_at_def)
    then show False by simp
  qed
qed

lemma closest_at_eligible: "closest_at targetX ts k \<Longrightarrow> \<exists>t\<in>set ts. eligible t"
  by (auto simp: closest_at_def)

text \<open>
  C3: a call of \<open>fireMissile\<close> in a status other than \<open>PLAYING\<close>, or with no turret that
  is both active and has ammo left, returns the state unchanged. Otherwise there is exactly
  one index \<open>i\<close> with \<open>closest_at\<close> (the eligible turret of least horizontal distance
  to \<open>targetX\<close>, the first one among equals); the call takes one round from that turret
  and appends one missile that starts at the turret's position, has the target
  \<open>(targetX, targetY)\<close>, the Euclidean distance between the two as \<open>distance\<close>, and
  progress 0. Nothing else changes.
\<close>

theorem fireMissile_closest_turret:
  "(gameState s \<noteq> PLAYING \<or> (\<forall>t\<in>set (turrets s). \<not> eligible t) \<longrightarrow>
      fireMissile targetX targetY s = s) \<and>
   (gameState s = PLAYING \<and> (\<exists>t\<in>set (turrets s). eligible t) \<longrightarrow>
      (\<exists>i. closest_at targetX (turrets s) i \<and>
           (\<forall>k. closest_at targetX (turrets s) k \<longrightarrow> k = i) \<and>
           fireMissile targetX targetY s =
             s\<lparr>turrets := (turrets s)[i := (turrets s ! i)\<lparr>t_ammo := t_ammo (turrets s ! i) - 1\<rparr>],
               missiles := missiles s @
                 [\<lparr>m_x = Fin (t_x (turrets s ! i)), m_y = Fin (t_y (turrets s ! i)),
                   m_targetX = targetX, m_targetY = targetY,
                   m_startX = t_x (turrets s ! i), m_startY = t_y (turrets s ! i),
                   m_progress = Fin 0,
                   m_distance = sqrt ((targetX - t_x (turrets s ! i))\<^sup>2 +
                                      (targetY - t_y (turrets s ! i))\<^sup>2)\<rparr>]\<rparr>))"
proof (intro conjI impI)
  assume "gameState s \<noteq> PLAYING \<or> (\<forall>t\<in>set (turrets s). \<not> eligible t)"
  then show "fireMissile targetX targetY s = s"
    using closestTurret_start [of targetX "turrets s"]
    by (auto simp: fireMissile_def dest: closest_at_eligible)
next
  assume a: "gameState s = PLAYING \<and> (\<exists>t\<in>set (turrets s). eligible t)"
  with closestTurret_start [of targetX "turrets s"]
  obtain i where i: "closest_at targetX (turrets s) i"
    and res: "fst (closestTurret targetX (turrets s) 0 (None, PosInfinity)) = Some i"
    by auto
  from i have uniq: "\<forall>k. closest_at targetX (turrets s) k \<longrightarrow> k = i"
    by (auto dest: closest_at_unique)
  from res a have "fireMissile targetX targetY s =
             s\<lparr>turrets := (turrets s)[i := (turrets s ! i)\<lparr>t_ammo := t_ammo (turrets s ! i) - 1\<rparr>],
               missiles := missiles s @
                 [\<lparr>m_x = Fin (t_x (turrets s ! i)), m_y = Fin (t_y (turrets s ! i)),
                   m_targetX = targetX, m_targetY = targetY,
                   m_startX = t_x (turrets s ! i), m_startY = t_y (turrets s ! i),
                   m_progress = Fin 0,
                   m_distance = sqrt ((targetX - t_x (turrets s ! i))\<^sup>2 +
                                      (targetY - t_y (turrets s ! i))\<^sup>2)\<rparr>]\<rparr>"
    by (simp add: fireMissile_def Let_def)
  with i uniq show "\<exists>i. closest_at targetX (turrets s) i \<and>
           (\<forall>k. closest_at targetX (turrets s) k \<longrightarrow> k = i) \<and>
           fireMissile targetX targetY s =
             s\<lparr>turrets := (turrets s)[i := (turrets s ! i)\<lparr>t_ammo := t_ammo (turrets s ! i) - 1\<rparr>],
               missiles := missiles s @
                 [\<lparr>m_x = Fin (t_x (turrets s ! i)), m_y = Fin (t_y (turrets s ! i)),
                   m_targetX = targetX, m_targetY = targetY,
                   m_startX = t_x (turrets s ! i), m_startY = t_y (turrets s ! i),
                   m_progress = Fin 0,
                   m_distance = sqrt ((targetX - t_x (turrets s ! i))\<^sup>2 +
                                      (targetY - t_y (turrets s ! i))\<^sup>2)\<rparr>]\<rparr>"
    by blast
qed

lemma closest_at_init: "closest_at 100 initTurrets 0"
  by (simp add: closest_at_def initTurrets_def eligible_def const_defs less_Suc_eq
      numeral_3_eq_3 nth_Cons split: nat.splits)

theorem fireMissile_closest_turret_witness:
  "gameState (initGame 0 mounted) = PLAYING \<and>
   (\<exists>t\<in>set (turrets (initGame 0 mounted)). eligible t) \<and>
   map t_ammo (turrets (fireMissile 100 100 (initGame 0 mounted))) = [19, 40, 20] \<and>
   map m_distance (missiles (fireMissile 100 100 (initGame 0 mounted))) = [sqrt (60\<^sup>2 + 470\<^sup>2)] \<and>
   gameState mounted \<noteq> PLAYING \<and> fireMissile 100 100 mounted = mounted"
proof -
  let ?s = "initGame 0 mounted"
  have playing: "gameState ?s = PLAYING"
    by (simp add: initGame_def)
  have el: "\<exists>t\<in>set (turrets ?s). eligible t"
    by (simp add: initGame_def initTurrets_def eligible_def const_defs)
  have c0: "closest_at 100 (turrets ?s) 0"
    by (simp add: initGame_def closest_at_init)
  from fireMissile_closest_turret [of ?s 100 100] playing el
  obtain i where i: "\<forall>k. closest_at 100 (turrets ?s) k \<longrightarrow> k = i"
    and eq: "fireMissile 100 100 ?s =
             ?s\<lparr>turrets := (turrets ?s)[i := (turrets ?s ! i)\<lparr>t_ammo := t_ammo (turrets ?s ! i) - 1\<rparr>],
               missiles := missiles ?s @
                 [\<lparr>m_x = Fin (t_x (turrets ?s ! i)), m_y = Fin (t_y (turrets ?s ! i)),
                   m_targetX = 100, m_targetY = 100,
                   m_startX = t_x (turrets ?s ! i), m_startY = t_y (turrets ?s ! i),
                   m_progress = Fin 0,
                   m_distance = sqrt ((100 - t_x (turrets ?s ! i))\<^sup>2 +
                                      (100 - t_y (turrets ?s ! i))\<^sup>2)\<rparr>]\<rparr>"
    by blast
  from i c0 have "i = 0" by auto
  with eq have ammo: "map t_ammo (turrets (fireMissile 100 100 ?s)) = [19, 40, 20]"
    and dist: "map m_distance (missiles (fireMissile 100 100 ?s)) = [sqrt (60\<^sup>2 + 470\<^sup>2)]"
    by (simp_all add: initGame_def initTurrets_def const_defs)
  have idle: "gameState mounted \<noteq> PLAYING"
    by (simp add: mounted_def)
  with fireMissile_closest_turret [of mounted 100 100]
  have "fireMissile 100 100 mounted = mounted" by blast
  with playing el ammo dist idle show ?thesis by blast
qed

section \<open>Rocket impacts\<close>

lemma map_hitCity:
  "map (\<lambda>city. if c_active city \<and> (\<exists>rocket\<in>set R. nearCity city rocket)
               then city\<lparr>c_active := False\<rparr> else city) (map (hitCity r) cs) =
   map (\<lambda>city. if c_active city \<and> (\<exists>rocket\<in>set (r # R). nearCity city rocket)
               then city\<lparr>c_active := False\<rparr> else city) cs"
  by (auto simp: hitCity_def nearCity_def)

lemma map_hitTurret:
  "map (\<lambda>turret. if t_active turret \<and> (\<exists>rocket\<in>set R. nearTurret turret rocket)
               then turret\<lparr>t_active := False\<rparr> else turret) (map (hitTurret r) ts) =
   map (\<lambda>turret. if t_active turret \<and> (\<exists>rocket\<in>set (r # R). nearTurret turret rocket)
               then turret\<lparr>t_active := False\<rparr> else turret) ts"
  by (auto simp: hitTurret_def nearTurret_def)

lemma updateRockets_char:
  "updateRockets rs cs ts es =
     (filter (\<lambda>rocket. \<not> distToTarget rocket < 5 \<and> r_y rocket < GAME_HEIGHT) (map moveRocket rs),
      map (\<lambda>city. if c_active city \<and> (\<exists>rocket\<in>set (impacts rs). nearCity city rocket)
                  then city\<lparr>c_active := False\<rparr> else city) cs,
      map (\<lambda>turret. if t_active turret \<and> (\<exists>rocket\<in>set (impacts rs). nearTurret turret rocket)
                  then turret\<lparr>t_active := False\<rparr> else turret) ts,
      es @ map impactExplosion (impacts rs))"
proof (induction rs arbitrary: cs ts es)
  case Nil
  show ?case by (simp add: impacts_def)
next
  case (Cons r rs)
  show ?case
  proof (cases "distToTarget (moveRocket r) < 5")
    case True
    then have imp: "impacts (r # rs) = moveRocket r # impacts rs"
      by (simp add: impacts_def)
    have "updateRockets (r # rs) cs ts es =
        updateRockets rs (map (hitCity (moveRocket r)) cs) (map (hitTurret (moveRocket r)) ts)
          (es @ [impactExplosion (moveRocket r)])"
      using True by (simp add: Let_def)
    then show ?thesis
      unfolding Cons.IH imp map_hitCity map_hitTurret using True
      by simp
  next
    case False
    then have imp: "impacts (r # rs) = impacts rs"
      by (simp add: impacts_def)
    show ?thesis
      unfolding imp using False by (simp add: Let_def Cons.IH)
  qed
qed

lemma rocketsPhase_char:
  "rocketsPhase s =
     s\<lparr>rockets := filter (\<lambda>rocket. \<not> distToTarget rocket < 5 \<and> r_y rocket < GAME_HEIGHT)
                   (map moveRocket (rockets s)),
       cities := map (\<lambda>city. if c_active city \<and>
                                (\<exists>rocket\<in>set (impacts (rockets s)). nearCity city rocket)
                             then city\<lparr>c_active := False\<rparr> else city) (cities s),
       turrets := map (\<lambda>turret. if t_active turret \<and>
                                (\<exists>rocket\<in>set (impacts (rockets s)). nearTurret turret rocket)
                             then turret\<lparr>t_active := False\<rparr> else turret) (turrets s),
       explosions := explosions s @ map impactExplosion (impacts (rockets s))\<rparr>"
  by (simp add: rocketsPhase_def updateRockets_char)

text \<open>
  C6: in the rocket phase of a step every rocket is moved first. The rockets kept are the
  moved rockets that are neither within 5 units (Euclidean) of their target nor at
  \<open>y \<ge> GAME_HEIGHT\<close>. Each rocket within 5 units of its target is removed and adds an
  explosion at its current position with \<open>maxRadius\<close> 20, \<open>maxLife\<close> 30, radius and life 0;
  a city becomes inactive exactly if it was active and lies within 10 units of such a
  rocket on both axes, a turret exactly if it was active and lies within 15 units on both
  axes. Nothing else changes in the phase; in particular a rocket that is not within 5
  units of its target and has \<open>y \<ge> GAME_HEIGHT\<close> is dropped with no explosion, no score and
  no other change. The last conjuncts spell the tests out: the move by
  \<open>(cos angle * speed, sin angle * speed)\<close>, the Euclidean distance to the target, the
  threshold 5, the two box tests, and \<open>GAME_HEIGHT = 600\<close>.
\<close>

theorem rocket_impact_effects:
  "rocketsPhase s =
     s\<lparr>rockets := filter (\<lambda>rocket. \<not> distToTarget rocket < 5 \<and> r_y rocket < GAME_HEIGHT)
                   (map moveRocket (rockets s)),
       cities := map (\<lambda>city. if c_active city \<and>
                                (\<exists>rocket\<in>set (impacts (rockets s)). nearCity city rocket)
                             then city\<lparr>c_active := False\<rparr> else city) (cities s),
       turrets := map (\<lambda>turret. if t_active turret \<and>
                                (\<exists>rocket\<in>set (impacts (rockets s)). nearTurret turret rocket)
                             then turret\<lparr>t_active := False\<rparr> else turret) (turrets s),
       explosions := explosions s @ map impactExplosion (impacts (rockets s))\<rparr> \<and>
   (\<forall>rocket\<in>set (impacts (rockets s)).
      impactExplosion rocket =
        \<lparr>e_x = r_x rocket, e_y = r_y rocket, e_radius = 0, e_maxRadius = 20, e_life = 0,
         e_maxLife = 30\<rparr>) \<and>
   (\<not> distToTarget (moveRocket r) < 5 \<and> GAME_HEIGHT \<le> r_y (moveRocket r) \<longrightarrow>
      rocketsPhase (s\<lparr>rockets := [r]\<rparr>) = s\<lparr>rockets := []\<rparr>) \<and>
   moveRocket rk =
     rk\<lparr>r_x := r_x rk + cos (r_angle rk) * r_speed rk,
        r_y := r_y rk + sin (r_angle rk) * r_speed rk\<rparr> \<and>
   distToTarget rk = sqrt ((r_x rk - r_targetX rk)\<^sup>2 + (r_y rk - r_targetY rk)\<^sup>2) \<and>
   impacts rs =
     filter (\<lambda>rocket. sqrt ((r_x rocket - r_targetX rocket)\<^sup>2 +
                             (r_y rocket - r_targetY rocket)\<^sup>2) < 5) (map moveRocket rs) \<and>
   (nearCity city rk \<longleftrightarrow> \<bar>c_x city - r_x rk\<bar> < 10 \<and> \<bar>c_y city - r_y rk\<bar> < 10) \<and>
   (nearTurret turret rk \<longleftrightarrow> \<bar>t_x turret - r_x rk\<bar> < 15 \<and> \<bar>t_y turret - r_y rk\<bar> < 15) \<and>
   GAME_HEIGHT = 600"
  by (simp add: rocketsPhase_char impactExplosion_def impacts_def moveRocket_def
      distToTarget_def [abs_def] nearCity_def nearTurret_def GAME_HEIGHT_def)

lemma lastTurret_impacts:
  "impacts (rockets lastTurretState) =
     [\<lparr>r_x = 400, r_y = 566.5, r_targetX = 400, r_targetY = 570, r_speed = 1,
       r_angle = pi / 2\<rparr>]"
  by (simp add: lastTurretState_def impacts_def step_defs)

theorem rocket_impact_effects_witness:
  "rocketsPhase lastTurretState =
     lastTurretState\<lparr>rockets := [],
       turrets := map (\<lambda>turret. turret\<lparr>t_active := False\<rparr>) initTurrets,
       explosions := [\<lparr>e_x = 400, e_y = 566.5, e_radius = 0, e_maxRadius = 20, e_life = 0,
                       e_maxLife = 30\<rparr>]\<rparr> \<and>
   rocketsPhase (lastTurretState\<lparr>rockets :=
       [\<lparr>r_x = 400, r_y = 599.5, r_targetX = 400, r_targetY = 570, r_speed = 1,
         r_angle = pi / 2\<rparr>]\<rparr>) = lastTurretState\<lparr>rockets := []\<rparr>"
proof -
  let ?r = "\<lparr>r_x = 400, r_y = 599.5, r_targetX = 400, r_targetY = 570, r_speed = 1,
         r_angle = pi / 2\<rparr>"
  have leaving: "\<not> distToTarget (moveRocket ?r) < 5 \<and> GAME_HEIGHT \<le> r_y (moveRocket ?r)"
    by (simp add: step_defs const_defs)
  from rocket_impact_effects [of lastTurretState ?r] leaving
  have eq: "rocketsPhase lastTurretState =
     lastTurretState\<lparr>rockets := filter (\<lambda>rocket. \<not> distToTarget rocket < 5 \<and> r_y rocket < GAME_HEIGHT)
                   (map moveRocket (rockets lastTurretState)),
       cities := map (\<lambda>city. if c_active city \<and>
                                (\<exists>rocket\<in>set (impacts (rockets lastTurretState)). nearCity city rocket)
                             then city\<lparr>c_active := False\<rparr> else city) (cities lastTurretState),
       turrets := map (\<lambda>turret. if t_active turret \<and>
                                (\<exists>rocket\<in>set (impacts (rockets lastTurretState)). nearTurret turret rocket)
                             then turret\<lparr>t_active := False\<rparr> else turret) (turrets lastTurretState),
       explosions := explosions lastTurretState @ map impactExplosion (impacts (rockets lastTurretState))\<rparr>"
    and gone: "rocketsPhase (lastTurretState\<lparr>rockets := [?r]\<rparr>) = lastTurretState\<lparr>rockets := []\<rparr>"
    by blast+
  have "rocketsPhase lastTurretState =
     lastTurretState\<lparr>rockets := [],
       turrets := map (\<lambda>turret. turret\<lparr>t_active := False\<rparr>) initTurrets,
       explosions := [\<lparr>e_x = 400, e_y = 566.5, e_radius = 0, e_maxRadius = 20, e_life = 0,
                       e_maxLife = 30\<rparr>]\<rparr>"
    unfolding eq lastTurret_impacts
    by (simp add: lastTurretState_def initTurrets_def initCities_def cityX_def citySpacing_def
        nearCity_def nearTurret_def impactExplosion_def step_defs const_defs)
  with gone show ?thesis by blast
qed

section \<open>Ammunition\<close>

lemma phases_turrets [simp]:
  "turrets (spawnPhase time d s) = turrets s"
  "turrets (missilesPhase s) = turrets s"
  "turrets (explosionsPhase s) = turrets s"
  by (simp_all add: spawnPhase_def spawnRocket_def Let_def missilesPhase_def
      explosionsPhase_def split: prod.splits)

lemma update_turrets:
  "turrets (update time d s) = turrets s \<or>
   turrets (update time d s) =
     map (\<lambda>turret. if t_active turret \<and>
            (\<exists>rocket\<in>set (impacts (rockets (spawnPhase time d s))). nearTurret turret rocket)
          then turret\<lparr>t_active := False\<rparr> else turret) (turrets s)"
  by (cases "gameState s = PLAYING") (simp_all add: update_def rocketsPhase_char)

lemma fireMissile_turrets:
  "turrets (fireMissile targetX targetY s) = turrets s \<or>
   (\<exists>i<length (turrets s). eligible (turrets s ! i) \<and>
      turrets (fireMissile targetX targetY s) =
        (turrets s)[i := (turrets s ! i)\<lparr>t_ammo := t_ammo (turrets s ! i) - 1\<rparr>])"
  using closestTurret_start [of targetX "turrets s"]
  by (auto simp: fireMissile_def Let_def closest_at_def)

lemma ammo_step_refl: "ammo_step ts ts"
  by (simp add: ammo_step_def)

lemma ammo_step_trans: "ammo_step ts ts' \<Longrightarrow> ammo_step ts' ts'' \<Longrightarrow> ammo_step ts ts''"
  by (fastforce simp: ammo_step_def)

lemma handle_ammo_step: "\<not> isInitGame e \<Longrightarrow> ammo_step (turrets s) (turrets (handle s e))"
proof (cases e)
  case (Fire targetX targetY)
  show ?thesis
    using fireMissile_turrets [of targetX targetY s] unfolding Fire
    by (auto simp: ammo_step_def eligible_def nth_list_update)
next
  case (Frame time d)
  show ?thesis
    using update_turrets [of time d s] unfolding Frame
    by (auto simp: ammo_step_def)
qed (simp_all add: ammo_step_def)

lemma run_ammo_step:
  "\<not> list_ex isInitGame evs \<Longrightarrow> ammo_step (turrets s) (turrets (run s evs))"
proof (induction evs arbitrary: s)
  case Nil
  show ?case by (simp add: run_def ammo_step_refl)
next
  case (Cons e evs)
  then have "ammo_step (turrets s) (turrets (handle s e))"
    and "ammo_step (turrets (handle s e)) (turrets (run (handle s e) evs))"
    by (simp_all add: handle_ammo_step)
  then show ?case
    by (auto simp: run_def intro: ammo_step_trans)
qed

lemma ammo_ok_nth:
  "ammo_ok s \<longleftrightarrow>
     (\<forall>i<length (turrets s). 0 \<le> t_ammo (turrets s ! i) \<and>
        t_ammo (turrets s ! i) \<le> t_maxAmmo (turrets s ! i))"
  by (simp add: ammo_ok_def all_set_conv_all_nth)

lemma ammo_ok_initGame: "ammo_ok (initGame now s)"
  by (simp add: ammo_ok_def initGame_def initTurrets_def const_defs)

lemma ammo_ok_handle: "ammo_ok s \<Longrightarrow> ammo_ok (handle s e)"
proof (cases "isInitGame e")
  case True
  then show ?thesis by (cases e) (simp_all add: ammo_ok_initGame)
next
  case False
  assume "ammo_ok s"
  with handle_ammo_step [OF False, of s] show ?thesis
    unfolding ammo_ok_nth ammo_step_def by fastforce
qed

lemma ammo_ok_run: "ammo_ok s \<Longrightarrow> ammo_ok (run s evs)"
  by (induction evs arbitrary: s) (simp_all add: run_def ammo_ok_handle)

text \<open>
  C4: every turret's ammo stays within \<open>[0, maxAmmo]\<close>. The bound holds in the mounted
  component and after \<open>initGame\<close>, and every sequence of handler calls (clicks, frames,
  pause, resume, back to start, restart) preserves it. A sequence without \<open>initGame\<close> keeps
  the turrets in place, keeps each \<open>maxAmmo\<close> and never raises an \<open>ammo\<close>; and
  \<open>fireMissile\<close> leaves the ammo of every turret that is inactive or empty as it is.
\<close>

theorem ammo_stays_in_bounds:
  "ammo_ok mounted \<and> ammo_ok (initGame now s0) \<and>
   (ammo_ok s \<longrightarrow> ammo_ok (run s evs)) \<and>
   (\<not> list_ex isInitGame evs \<longrightarrow>
      length (turrets (run s evs)) = length (turrets s) \<and>
      (\<forall>i<length (turrets s).
         t_maxAmmo (turrets (run s evs) ! i) = t_maxAmmo (turrets s ! i) \<and>
         t_ammo (turrets (run s evs) ! i) \<le> t_ammo (turrets s ! i))) \<and>
   (\<forall>i<length (turrets s). \<not> (t_active (turrets s ! i) \<and> 0 < t_ammo (turrets s ! i)) \<longrightarrow>
      t_ammo (turrets (fireMissile targetX targetY s) ! i) = t_ammo (turrets s ! i))"
proof (intro conjI impI)
  show "ammo_ok mounted" by (simp add: ammo_ok_def mounted_def)
  show "ammo_ok (initGame now s0)" by (rule ammo_ok_initGame)
  show "ammo_ok (run s evs)" if "ammo_ok s" using that by (rule ammo_ok_run)
  show "length (turrets (run s evs)) = length (turrets s)" if "\<not> list_ex isInitGame evs"
    using run_ammo_step [OF that, of s] by (simp add: ammo_step_def)
  show "\<forall>i<length (turrets s).
         t_maxAmmo (turrets (run s evs) ! i) = t_maxAmmo (turrets s ! i) \<and>
         t_ammo (turrets (run s evs) ! i) \<le> t_ammo (turrets s ! i)"
    if "\<not> list_ex isInitGame evs"
    using run_ammo_step [OF that, of s] by (simp add: ammo_step_def)
  show "\<forall>i<length (turrets s). \<not> (t_active (turrets s ! i) \<and> 0 < t_ammo (turrets s ! i)) \<longrightarrow>
      t_ammo (turrets (fireMissile targetX targetY s) ! i) = t_ammo (turrets s ! i)"
    using fireMissile_turrets [of targetX targetY s]
    by (auto simp: eligible_def nth_list_update)
qed

theorem ammo_stays_in_bounds_witness:
  "ammo_ok (run (initGame 0 mounted) [Fire 100 100, Frame 16 draws0, Pause, Resume, Fire 100 100]) \<and>
   t_ammo (turrets (run (initGame 0 mounted)
       [Fire 100 100, Frame 16 draws0, Pause, Resume, Fire 100 100]) ! 0) \<le> 20 \<and>
   t_ammo (turrets (fireMissile 30 100 lastTurretState) ! 0) = 20"
proof -
  let ?s = "initGame 0 mounted"
  let ?evs = "[Fire 100 100, Frame 16 draws0, Pause, Resume, Fire 100 100]"
  have noinit: "\<not> list_ex isInitGame ?evs" by simp
  have len: "0 < length (turrets ?s)" and a0: "t_ammo (turrets ?s ! 0) = 20"
    by (simp_all add: initGame_def initTurrets_def const_defs)
  have len': "0 < length (turrets lastTurretState)"
    and off: "\<not> (t_active (turrets lastTurretState ! 0) \<and> 0 < t_ammo (turrets lastTurretState ! 0))"
    and a0': "t_ammo (turrets lastTurretState ! 0) = 20"
    by (simp_all add: lastTurretState_def initTurrets_def const_defs)
  from ammo_stays_in_bounds [of 0 mounted ?s ?evs 100 100]
  have ok: "ammo_ok ?s" and pres: "ammo_ok ?s \<longrightarrow> ammo_ok (run ?s ?evs)"
    and mono: "\<not> list_ex isInitGame ?evs \<longrightarrow>
      (\<forall>i<length (turrets ?s). t_maxAmmo (turrets (run ?s ?evs) ! i) = t_maxAmmo (turrets ?s ! i) \<and>
         t_ammo (turrets (run ?s ?evs) ! i) \<le> t_ammo (turrets ?s ! i))"
    by blast+
  from mono noinit len a0 have le: "t_ammo (turrets (run ?s ?evs) ! 0) \<le> 20"
    by fastforce
  from ammo_stays_in_bounds [of 0 mounted lastTurretState "[]" 30 100] len' off a0'
  have "t_ammo (turrets (fireMissile 30 100 lastTurretState) ! 0) = 20"
    by fastforce
  with ok pres le show ?thesis by blast
qed

section \<open>A missile fired at its own turret\<close>





section \<open>Explosions\<close>

lemma blastRockets_char:
  "blastRockets expl rs sc =
     (filter (\<lambda>rocket. \<not> inBlast expl rocket) rs,
      sc + POINTS_PER_ROCKET * int (length (filter (inBlast expl) rs)))"
  by (induction rs arbitrary: sc) (simp_all add: algebra_simps)

lemma survivors_Cons:
  "survivors (expl # es) rs =
     survivors es (filter (\<lambda>rocket. \<not> inBlast (growExplosion expl) rocket) rs)"
  by (auto simp: survivors_def intro: filter_cong)

lemma length_survivors_le: "length (survivors es rs) \<le> length rs"
  by (simp add: survivors_def)

lemma updateExplosions_char:
  "updateExplosions es rs sc =
     (filter (\<lambda>expl. e_life expl < e_maxLife expl) (map growExplosion es),
      survivors es rs,
      sc + POINTS_PER_ROCKET * (int (length rs) - int (length (survivors es rs))))"
proof (induction es arbitrary: rs sc)
  case Nil
  show ?case by (simp add: survivors_def)
next
  case (Cons e es)
  let ?e = "growExplosion e"
  let ?rs = "filter (\<lambda>rocket. \<not> inBlast ?e rocket) rs"
  have "int (length (filter (inBlast ?e) rs)) + int (length ?rs) = int (length rs)"
    using sum_length_filter_compl [of "inBlast ?e" rs] by linarith
  then have eq: "int (length (filter (inBlast ?e) rs)) = int (length rs) - int (length ?rs)"
    by linarith
  show ?case
    by (simp add: Let_def blastRockets_char Cons.IH survivors_Cons eq right_diff_distrib)
qed

lemma explosionsPhase_char:
  "explosionsPhase s =
     s\<lparr>explosions := filter (\<lambda>expl. e_life expl < e_maxLife expl)
                       (map growExplosion (explosions s)),
       rockets := survivors (explosions s) (rockets s),
       score := score s + POINTS_PER_ROCKET *
                  (int (length (rockets s)) - int (length (survivors (explosions s) (rockets s))))\<rparr>"
  by (simp add: explosionsPhase_def updateExplosions_char)

lemma phases_score [simp]:
  "score (spawnPhase time d s) = score s"
  "score (rocketsPhase s) = score s"
  "score (missilesPhase s) = score s"
  "score (checkWinLoss sc s) = score s"
  "score (fireMissile targetX targetY s) = score s"
  by (simp_all add: spawnPhase_def spawnRocket_def Let_def rocketsPhase_def missilesPhase_def
      checkWinLoss_def fireMissile_def split: prod.splits option.splits)

lemma explosionsPhase_score_mono: "score s \<le> score (explosionsPhase s)"
  using length_survivors_le [of "explosions s" "rockets s"]
  by (simp add: explosionsPhase_char POINTS_PER_ROCKET_def)

lemma update_score_mono: "score s \<le> score (update time d s)"
proof (cases "gameState s = PLAYING")
  case True
  have "score s = score (missilesPhase (rocketsPhase (spawnPhase time d s)))" by simp
  also have "\<dots> \<le> score (explosionsPhase (missilesPhase (rocketsPhase (spawnPhase time d s))))"
    by (rule explosionsPhase_score_mono)
  finally show ?thesis using True by (simp add: update_playing)
next
  case False
  then show ?thesis by (simp add: update_def)
qed

lemma handle_score_mono: "\<not> isInitGame e \<Longrightarrow> score s \<le> score (handle s e)"
  by (cases e) (simp_all add: update_score_mono)

lemma run_score_mono: "\<not> list_ex isInitGame evs \<Longrightarrow> score s \<le> score (run s evs)"
proof (induction evs arbitrary: s)
  case Nil
  show ?case by (simp add: run_def)
next
  case (Cons e evs)
  then have "score s \<le> score (handle s e)"
    and "score (handle s e) \<le> score (run (handle s e) evs)"
    by (simp_all add: handle_score_mono)
  then show ?case by (simp add: run_def)
qed

lemma checkWinLoss_rockets [simp]: "rockets (checkWinLoss sc s) = rockets s"
  by (simp add: checkWinLoss_def Let_def)

lemma update_rockets_score:
  assumes "gameState s = PLAYING"
  shows "rockets (update time d s) =
           survivors (explosions (missilesPhase (rocketsPhase (spawnPhase time d s))))
             (rockets (missilesPhase (rocketsPhase (spawnPhase time d s)))) \<and>
         score (update time d s) =
           score s + POINTS_PER_ROCKET *
             (int (length (rockets (missilesPhase (rocketsPhase (spawnPhase time d s)))))
                - int (length (rockets (update time d s))))"
  using assms by (simp add: update_playing) (simp add: explosionsPhase_char)

lemma updateExplosions_Cons:
  "snd (updateExplosions (expl # es) rs sc) =
     snd (updateExplosions es
            (filter (\<lambda>rocket. \<not> inBlast (growExplosion expl) rocket) rs)
            (sc + POINTS_PER_ROCKET *
                    int (length (filter (inBlast (growExplosion expl)) rs))))"
  by (simp add: Let_def blastRockets_char split: prod.splits)

text \<open>
  C7: in the explosion phase the explosions are taken in order. Each one removes, from the
  rockets still present, exactly those whose Euclidean distance
  \<open>sqrt ((rocket.x - exp.x)\<^sup>2 + (rocket.y - exp.y)\<^sup>2)\<close> to its centre is strictly below
  the radius it has after its own update, and adds \<open>POINTS_PER_ROCKET = 20\<close> for each of
  them; the next explosion sees only the rockets that are left. After the phase the rockets
  left are those that are not strictly within the updated radius of any explosion, and the
  score has grown by 20 times the number of rockets removed, so a rocket within reach of
  several explosions counts once. The same holds of a whole step in status \<open>PLAYING\<close>. The
  score never decreases in a step, nor over any sequence of handler calls that does not
  restart the game.
\<close>

theorem explosions_destroy_rockets:
  "blastRockets expl rs sc =
     (filter (\<lambda>rocket. \<not> sqrt ((r_x rocket - e_x expl)\<^sup>2 + (r_y rocket - e_y expl)\<^sup>2)
                            < e_radius expl) rs,
      sc + 20 * int (length (filter
             (\<lambda>rocket. sqrt ((r_x rocket - e_x expl)\<^sup>2 + (r_y rocket - e_y expl)\<^sup>2)
                          < e_radius expl) rs))) \<and>
   snd (updateExplosions (expl # es) rs sc) =
     snd (updateExplosions es
            (filter (\<lambda>rocket. \<not> sqrt ((r_x rocket - e_x expl)\<^sup>2 + (r_y rocket - e_y expl)\<^sup>2)
                                   < e_radius (growExplosion expl)) rs)
            (sc + 20 * int (length (filter
               (\<lambda>rocket. sqrt ((r_x rocket - e_x expl)\<^sup>2 + (r_y rocket - e_y expl)\<^sup>2)
                            < e_radius (growExplosion expl)) rs)))) \<and>
   e_radius (growExplosion expl) =
     (if e_life expl + 1 \<le> e_maxLife expl / 2
      then ((e_life expl + 1) / (e_maxLife expl / 2)) * e_maxRadius expl
      else (1 - (e_life expl + 1 - e_maxLife expl / 2) / (e_maxLife expl / 2))
             * e_maxRadius expl) \<and>
   explosionsPhase s =
     s\<lparr>explosions := filter (\<lambda>expl. e_life expl < e_maxLife expl)
                       (map growExplosion (explosions s)),
       rockets := filter (\<lambda>rocket. \<forall>expl\<in>set (explosions s).
                     \<not> sqrt ((r_x rocket - e_x expl)\<^sup>2 + (r_y rocket - e_y expl)\<^sup>2)
                         < e_radius (growExplosion expl)) (rockets s),
       score := score s + 20 *
                  (int (length (rockets s)) - int (length (filter
                     (\<lambda>rocket. \<forall>expl\<in>set (explosions s).
                        \<not> sqrt ((r_x rocket - e_x expl)\<^sup>2 + (r_y rocket - e_y expl)\<^sup>2)
                            < e_radius (growExplosion expl)) (rockets s))))\<rparr> \<and>
   (gameState s = PLAYING \<longrightarrow>
      rockets (update time d s) =
        filter (\<lambda>rocket.
            \<forall>expl\<in>set (explosions (missilesPhase (rocketsPhase (spawnPhase time d s)))).
              \<not> sqrt ((r_x rocket - e_x expl)\<^sup>2 + (r_y rocket - e_y expl)\<^sup>2)
                  < e_radius (growExplosion expl))
          (rockets (missilesPhase (rocketsPhase (spawnPhase time d s)))) \<and>
      score (update time d s) =
        score s + 20 *
          (int (length (rockets (missilesPhase (rocketsPhase (spawnPhase time d s)))))
             - int (length (rockets (update time d s))))) \<and>
   (inBlast expl rocket \<longleftrightarrow>
      sqrt ((r_x rocket - e_x expl)\<^sup>2 + (r_y rocket - e_y expl)\<^sup>2) < e_radius expl) \<and>
   survivors es rs =
     filter (\<lambda>rocket. \<forall>expl\<in>set es.
        \<not> sqrt ((r_x rocket - e_x expl)\<^sup>2 + (r_y rocket - e_y expl)\<^sup>2)
            < e_radius (growExplosion expl)) rs \<and>
   POINTS_PER_ROCKET = 20 \<and>
   score s \<le> score (update time d s) \<and>
   (\<not> list_ex isInitGame evs \<longrightarrow> score s \<le> score (run s evs))"
proof (intro conjI impI)
  show "blastRockets expl rs sc =
     (filter (\<lambda>rocket. \<not> sqrt ((r_x rocket - e_x expl)\<^sup>2 + (r_y rocket - e_y expl)\<^sup>2)
                            < e_radius expl) rs,
      sc + 20 * int (length (filter
             (\<lambda>rocket. sqrt ((r_x rocket - e_x expl)\<^sup>2 + (r_y rocket - e_y expl)\<^sup>2)
                          < e_radius expl) rs)))"
    using blastRockets_char [of expl rs sc]
    by (simp add: inBlast_def [abs_def] POINTS_PER_ROCKET_def)
  show "snd (updateExplosions (expl # es) rs sc) =
     snd (updateExplosions es
            (filter (\<lambda>rocket. \<not> sqrt ((r_x rocket - e_x expl)\<^sup>2 + (r_y rocket - e_y expl)\<^sup>2)
                                   < e_radius (growExplosion expl)) rs)
            (sc + 20 * int (length (filter
               (\<lambda>rocket. sqrt ((r_x rocket - e_x expl)\<^sup>2 + (r_y rocket - e_y expl)\<^sup>2)
                            < e_radius (growExplosion expl)) rs))))"
    using updateExplosions_Cons [of expl es rs sc]
    by (simp add: inBlast_def [abs_def] POINTS_PER_ROCKET_def growExplosion_def Let_def)
  show "e_radius (growExplosion expl) =
     (if e_life expl + 1 \<le> e_maxLife expl / 2
      then ((e_life expl + 1) / (e_maxLife expl / 2)) * e_maxRadius expl
      else (1 - (e_life expl + 1 - e_maxLife expl / 2) / (e_maxLife expl / 2))
             * e_maxRadius expl)"
    by (simp add: growExplosion_def Let_def)
  show "explosionsPhase s =
     s\<lparr>explosions := filter (\<lambda>expl. e_life expl < e_maxLife expl)
                       (map growExplosion (explosions s)),
       rockets := filter (\<lambda>rocket. \<forall>expl\<in>set (explosions s).
                     \<not> sqrt ((r_x rocket - e_x expl)\<^sup>2 + (r_y rocket - e_y expl)\<^sup>2)
                         < e_radius (growExplosion expl)) (rockets s),
       score := score s + 20 *
                  (int (length (rockets s)) - int (length (filter
                     (\<lambda>rocket. \<forall>expl\<in>set (explosions s).
                        \<not> sqrt ((r_x rocket - e_x expl)\<^sup>2 + (r_y rocket - e_y expl)\<^sup>2)
                            < e_radius (growExplosion expl)) (rockets s))))\<rparr>"
    using explosionsPhase_char [of s]
    by (simp add: survivors_def inBlast_def [abs_def] POINTS_PER_ROCKET_def growExplosion_def
        Let_def)
  show "rockets (update time d s) =
        filter (\<lambda>rocket.
            \<forall>expl\<in>set (explosions (missilesPhase (rocketsPhase (spawnPhase time d s)))).
              \<not> sqrt ((r_x rocket - e_x expl)\<^sup>2 + (r_y rocket - e_y expl)\<^sup>2)
                  < e_radius (growExplosion expl))
          (rockets (missilesPhase (rocketsPhase (spawnPhase time d s))))"
    if "gameState s = PLAYING"
    using update_rockets_score [OF that, of time d]
    by (simp add: survivors_def inBlast_def [abs_def] growExplosion_def Let_def)
  show "score (update time d s) =
        score s + 20 *
          (int (length (rockets (missilesPhase (rocketsPhase (spawnPhase time d s)))))
             - int (length (rockets (update time d s))))"
    if "gameState s = PLAYING"
    using update_rockets_score [OF that, of time d]
    by (simp add: POINTS_PER_ROCKET_def)
  show "inBlast expl rocket \<longleftrightarrow>
      sqrt ((r_x rocket - e_x expl)\<^sup>2 + (r_y rocket - e_y expl)\<^sup>2) < e_radius expl"
    by (simp add: inBlast_def)
  show "survivors es rs =
     filter (\<lambda>rocket. \<forall>expl\<in>set es.
        \<not> sqrt ((r_x rocket - e_x expl)\<^sup>2 + (r_y rocket - e_y expl)\<^sup>2)
            < e_radius (growExplosion expl)) rs"
    by (simp add: survivors_def inBlast_def [abs_def] growExplosion_def Let_def)
  show "POINTS_PER_ROCKET = 20" by (simp add: POINTS_PER_ROCKET_def)
  show "score s \<le> score (update time d s)" by (rule update_score_mono)
  show "score s \<le> score (run s evs)" if "\<not> list_ex isInitGame evs"
    using that by (rule run_score_mono)
qed

lemma lastKill_rocketsPhase:
  "rocketsPhase lastKillState =
     lastKillState\<lparr>rockets := [\<lparr>r_x = 400, r_y = 101, r_targetX = 400, r_targetY = 570,
                                 r_speed = 1, r_angle = pi / 2\<rparr>]\<rparr>"
  by (simp add: rocketsPhase_def lastKillState_def step_defs const_defs)

lemma column_before_blast:
  "missilesPhase (rocketsPhase (spawnPhase 16 draws0 columnState)) =
     columnState\<lparr>rockets :=
       [\<lparr>r_x = 400, r_y = 101, r_targetX = 400, r_targetY = 570, r_speed = 1,
         r_angle = pi / 2\<rparr>,
        \<lparr>r_x = 400, r_y = 131, r_targetX = 400, r_targetY = 570, r_speed = 1,
         r_angle = pi / 2\<rparr>,
        \<lparr>r_x = 400, r_y = 147, r_targetX = 400, r_targetY = 570, r_speed = 1,
         r_angle = pi / 2\<rparr>,
        \<lparr>r_x = 400, r_y = 200, r_targetX = 400, r_targetY = 570, r_speed = 1,
         r_angle = pi / 2\<rparr>]\<rparr>"
  by (simp add: columnState_def spawnPhase_def spawnRate_def rocketsPhase_def
      missilesPhase_def moveRocket_def distToTarget_def sqrt_less_iff_sq Let_def const_defs)

theorem explosions_destroy_rockets_witness:
  "\<not> list_ex isInitGame [Frame 16 draws0, Pause, Resume] \<and>
   score lastKillState \<le> score (run lastKillState [Frame 16 draws0, Pause, Resume]) \<and>
   rockets (explosionsPhase (rocketsPhase lastKillState)) = [] \<and>
   score (explosionsPhase (rocketsPhase lastKillState)) = 1000 \<and>
   gameState columnState = PLAYING \<and>
   rockets (update 16 draws0 columnState) =
     [\<lparr>r_x = 400, r_y = 147, r_targetX = 400, r_targetY = 570, r_speed = 1,
       r_angle = pi / 2\<rparr>,
      \<lparr>r_x = 400, r_y = 200, r_targetX = 400, r_targetY = 570, r_speed = 1,
       r_angle = pi / 2\<rparr>] \<and>
   score (update 16 draws0 columnState) = 40"
proof -
  let ?evs = "[Frame 16 draws0, Pause, Resume]"
  let ?s = "rocketsPhase lastKillState"
  let ?test = "\<lambda>es rocket. \<forall>expl\<in>set es.
      \<not> sqrt ((r_x rocket - e_x expl)\<^sup>2 + (r_y rocket - e_y expl)\<^sup>2)
          < e_radius (growExplosion expl)"
  have noinit: "\<not> list_ex isInitGame ?evs" by simp
  from explosions_destroy_rockets [where s = "?s"]
  have eq: "explosionsPhase ?s =
     ?s\<lparr>explosions := filter (\<lambda>expl. e_life expl < e_maxLife expl)
                       (map growExplosion (explosions ?s)),
       rockets := filter (?test (explosions ?s)) (rockets ?s),
       score := score ?s + 20 *
                  (int (length (rockets ?s))
                     - int (length (filter (?test (explosions ?s)) (rockets ?s))))\<rparr>"
    by blast
  from explosions_destroy_rockets [where s = lastKillState and evs = "?evs"] noinit
  have mono: "score lastKillState \<le> score (run lastKillState ?evs)"
    by blast
  have gone: "filter (?test (explosions ?s)) (rockets ?s) = []"
    unfolding lastKill_rocketsPhase
    by (simp add: lastKillState_def growExplosion_def Let_def sqrt_less_iff_sq)
  have kill: "rockets (explosionsPhase ?s) = []" "score (explosionsPhase ?s) = 1000"
    unfolding eq gone
    by (simp_all add: lastKill_rocketsPhase) (simp add: lastKillState_def)
  let ?c = "missilesPhase (rocketsPhase (spawnPhase 16 draws0 columnState))"
  have playing: "gameState columnState = PLAYING"
    by (simp add: columnState_def)
  from explosions_destroy_rockets [where s = columnState and time = 16 and d = draws0] playing
  have left: "rockets (update 16 draws0 columnState) =
      filter (?test (explosions ?c)) (rockets ?c)"
    and pts: "score (update 16 draws0 columnState) =
      score columnState + 20 *
        (int (length (rockets ?c)) - int (length (rockets (update 16 draws0 columnState))))"
    by blast+
  have two: "filter (?test (explosions ?c)) (rockets ?c) =
     [\<lparr>r_x = 400, r_y = 147, r_targetX = 400, r_targetY = 570, r_speed = 1,
       r_angle = pi / 2\<rparr>,
      \<lparr>r_x = 400, r_y = 200, r_targetX = 400, r_targetY = 570, r_speed = 1,
       r_angle = pi / 2\<rparr>]"
    unfolding column_before_blast
    by (simp add: columnState_def growExplosion_def Let_def sqrt_less_iff_sq power_divide)
  from left two have rs: "rockets (update 16 draws0 columnState) =
     [\<lparr>r_x = 400, r_y = 147, r_targetX = 400, r_targetY = 570, r_speed = 1,
       r_angle = pi / 2\<rparr>,
      \<lparr>r_x = 400, r_y = 200, r_targetX = 400, r_targetY = 570, r_speed = 1,
       r_angle = pi / 2\<rparr>]"
    by simp
  have "score (update 16 draws0 columnState) = 40"
    unfolding pts rs column_before_blast by (simp add: columnState_def)
  with noinit mono kill playing rs show ?thesis by blast
qed

section \<open>The envelope of an explosion\<close>

lemma growExplosion_envelope:
  "e_radius (growExplosion expl) = envelope (e_maxLife expl) (e_maxRadius expl) (e_life expl + 1)"
  by (simp add: growExplosion_def envelope_def Let_def)

lemma growExplosion_fields [simp]:
  "e_life (growExplosion expl) = e_life expl + 1"
  "e_maxLife (growExplosion expl) = e_maxLife expl"
  "e_maxRadius (growExplosion expl) = e_maxRadius expl"
  "e_x (growExplosion expl) = e_x expl"
  "e_y (growExplosion expl) = e_y expl"
  by (simp_all add: growExplosion_def Let_def)

lemma scale_bounds:
  fixes f r :: real
  assumes "0 \<le> f" and "f \<le> 1" and "0 \<le> r"
  shows "0 \<le> f * r \<and> f * r \<le> r"
  using assms by (simp add: mult_left_le_one_le)

lemma envelope_bounds:
  assumes "0 \<le> life" and "life \<le> maxLife" and "0 \<le> maxRadius"
  shows "0 \<le> envelope maxLife maxRadius life \<and> envelope maxLife maxRadius life \<le> maxRadius"
proof (cases "maxLife = 0")
  case True
  with assms show ?thesis by (simp add: envelope_def)
next
  case False
  with assms have pos: "0 < maxLife / 2" by simp
  show ?thesis
  proof (cases "life \<le> maxLife / 2")
    case True
    define f where "f = life / (maxLife / 2)"
    from True pos assms have "0 \<le> f" and "f \<le> 1"
      by (simp_all add: f_def field_simps)
    then have "0 \<le> f * maxRadius \<and> f * maxRadius \<le> maxRadius"
      using assms(3) by (rule scale_bounds)
    moreover from True have "envelope maxLife maxRadius life = f * maxRadius"
      by (simp add: envelope_def f_def)
    ultimately show ?thesis by simp
  next
    case False
    define f where "f = 1 - (life - maxLife / 2) / (maxLife / 2)"
    from False pos assms have "0 \<le> f" and "f \<le> 1"
      by (simp_all add: f_def field_simps)
    then have "0 \<le> f * maxRadius \<and> f * maxRadius \<le> maxRadius"
      using assms(3) by (rule scale_bounds)
    moreover from False have "envelope maxLife maxRadius life = f * maxRadius"
      by (simp add: envelope_def f_def)
    ultimately show ?thesis by simp
  qed
qed

lemma funpow_grow_fields:
  "e_life ((growExplosion ^^ k) expl) = e_life expl + real k \<and>
   e_maxLife ((growExplosion ^^ k) expl) = e_maxLife expl \<and>
   e_maxRadius ((growExplosion ^^ k) expl) = e_maxRadius expl"
  by (induction k) simp_all

lemma stepExplosions_char:
  "stepExplosions es =
     filter (\<lambda>expl. e_life expl < e_maxLife expl) (map growExplosion es)"
  by (simp add: stepExplosions_def updateExplosions_char)

lemma explosion_lifetime:
  assumes "e_life expl = 0" and "e_maxLife expl = real n" and "0 < n"
  shows "(stepExplosions ^^ k) [expl] = (if k < n then [(growExplosion ^^ k) expl] else [])"
proof (induction k)
  case 0
  from assms show ?case by simp
next
  case (Suc k)
  show ?case
  proof (cases "k < n")
    case True
    with Suc have "(stepExplosions ^^ Suc k) [expl] = stepExplosions [(growExplosion ^^ k) expl]"
      by simp
    also have "\<dots> = (if Suc k < n then [(growExplosion ^^ Suc k) expl] else [])"
      using assms funpow_grow_fields [of k expl]
      by (auto simp: stepExplosions_char)
    finally show ?thesis .
  next
    case False
    with Suc show ?thesis by (simp add: stepExplosions_char)
  qed
qed

text \<open>
  C8: the update of an explosion adds 1 to \<open>life\<close> and sets the radius to the triangular
  envelope at the new \<open>life\<close>. The envelope is 0 at \<open>life = 0\<close>, \<open>maxRadius\<close> at
  \<open>life = maxLife / 2\<close> and 0 at \<open>life = maxLife\<close> (exactly, over the reals), and stays
  within \<open>[0, maxRadius]\<close> in between. An explosion is kept by the phase exactly while its
  new \<open>life\<close> is below \<open>maxLife\<close>: one created with \<open>life = 0\<close> and a lifetime of \<open>n\<close>
  steps is present after \<open>k < n\<close> phases, with \<open>life = k\<close> and the radius of the envelope
  at \<open>k\<close>, and gone after \<open>n\<close>. Both kinds of explosion are created with \<open>life\<close> and
  radius 0.
\<close>

theorem explosion_envelope:
  "e_life (growExplosion expl) = e_life expl + 1 \<and>
   e_radius (growExplosion expl) =
     envelope (e_maxLife expl) (e_maxRadius expl) (e_life expl + 1) \<and>
   (0 \<le> maxLife \<longrightarrow> envelope maxLife maxRadius 0 = 0) \<and>
   (0 < maxLife \<longrightarrow> envelope maxLife maxRadius (maxLife / 2) = maxRadius \<and>
                      envelope maxLife maxRadius maxLife = 0) \<and>
   (0 \<le> life \<and> life \<le> maxLife \<and> 0 \<le> maxRadius \<longrightarrow>
      0 \<le> envelope maxLife maxRadius life \<and> envelope maxLife maxRadius life \<le> maxRadius) \<and>
   fst (updateExplosions es rs sc) =
     filter (\<lambda>expl. e_life expl < e_maxLife expl) (map growExplosion es) \<and>
   (e_life expl = 0 \<and> e_maxLife expl = real n \<and> 0 < n \<longrightarrow>
      (stepExplosions ^^ k) [expl] = (if k < n then [(growExplosion ^^ k) expl] else []) \<and>
      e_life ((growExplosion ^^ k) expl) = real k \<and>
      e_radius ((growExplosion ^^ Suc k) expl) =
        envelope (e_maxLife expl) (e_maxRadius expl) (real (Suc k))) \<and>
   e_life (impactExplosion rocket) = 0 \<and> e_radius (impactExplosion rocket) = 0 \<and>
   e_life (detonation missile) = 0 \<and> e_radius (detonation missile) = 0"
proof (intro conjI impI)
  show "e_radius ((growExplosion ^^ Suc k) expl) =
        envelope (e_maxLife expl) (e_maxRadius expl) (real (Suc k))"
    if "e_life expl = 0 \<and> e_maxLife expl = real n \<and> 0 < n"
    using that funpow_grow_fields [of k expl]
    by (simp add: growExplosion_envelope add.commute)
  show "e_life (impactExplosion rocket) = 0" "e_radius (impactExplosion rocket) = 0"
    by (simp_all add: impactExplosion_def)
  show "e_life (detonation missile) = 0" "e_radius (detonation missile) = 0"
    by (simp_all add: detonation_def)
  show "e_radius (growExplosion expl) =
     envelope (e_maxLife expl) (e_maxRadius expl) (e_life expl + 1)"
    by (rule growExplosion_envelope)
  show "envelope maxLife maxRadius 0 = 0" if "0 \<le> maxLife"
    using that by (simp add: envelope_def)
  show "envelope maxLife maxRadius (maxLife / 2) = maxRadius" if "0 < maxLife"
    using that by (simp add: envelope_def)
  show "envelope maxLife maxRadius maxLife = 0" if "0 < maxLife"
    using that by (simp add: envelope_def)
  show "0 \<le> envelope maxLife maxRadius life"
    if "0 \<le> life \<and> life \<le> maxLife \<and> 0 \<le> maxRadius"
    using that envelope_bounds by blast
  show "envelope maxLife maxRadius life \<le> maxRadius"
    if "0 \<le> life \<and> life \<le> maxLife \<and> 0 \<le> maxRadius"
    using that envelope_bounds by blast
  show "fst (updateExplosions es rs sc) =
     filter (\<lambda>expl. e_life expl < e_maxLife expl) (map growExplosion es)"
    by (simp add: updateExplosions_char)
  show "(stepExplosions ^^ k) [expl] = (if k < n then [(growExplosion ^^ k) expl] else [])"
    if "e_life expl = 0 \<and> e_maxLife expl = real n \<and> 0 < n"
    using that explosion_lifetime by blast
  show "e_life ((growExplosion ^^ k) expl) = real k"
    if "e_life expl = 0 \<and> e_maxLife expl = real n \<and> 0 < n"
    using that funpow_grow_fields [of k expl] by simp
qed simp

theorem explosion_envelope_witness:
  "envelope 60 46 0 = 0 \<and> envelope 60 46 30 = 46 \<and> envelope 60 46 60 = 0 \<and>
   0 \<le> envelope 60 46 45 \<and> envelope 60 46 45 \<le> 46 \<and>
   (stepExplosions ^^ 59)
      [\<lparr>e_x = 100, e_y = 100, e_radius = 0, e_maxRadius = 46, e_life = 0, e_maxLife = 60\<rparr>] =
     [(growExplosion ^^ 59)
        \<lparr>e_x = 100, e_y = 100, e_radius = 0, e_maxRadius = 46, e_life = 0, e_maxLife = 60\<rparr>] \<and>
   (stepExplosions ^^ 60)
      [\<lparr>e_x = 100, e_y = 100, e_radius = 0, e_maxRadius = 46, e_life = 0, e_maxLife = 60\<rparr>] = [] \<and>
   e_radius ((growExplosion ^^ 30)
      \<lparr>e_x = 100, e_y = 100, e_radius = 0, e_maxRadius = 46, e_life = 0, e_maxLife = 60\<rparr>) = 46"
proof -
  let ?e = "\<lparr>e_x = 100, e_y = 100, e_radius = 0, e_maxRadius = 46, e_life = 0, e_maxLife = 60\<rparr>"
  have born: "e_life ?e = 0 \<and> e_maxLife ?e = real 60 \<and> 0 < (60::nat)" by simp
  have range: "(0::real) \<le> 45 \<and> (45::real) \<le> 60 \<and> (0::real) \<le> 46" by simp
  from explosion_envelope [where maxLife = 60 and maxRadius = 46 and life = 45] range
  have env: "envelope 60 46 0 = 0" "envelope 60 46 (60 / 2) = 46" "envelope 60 46 60 = 0"
    "0 \<le> envelope 60 46 45" "envelope 60 46 45 \<le> 46"
    by simp_all
  from explosion_envelope [where expl = ?e and n = 60 and k = 59] born
  have k59: "(stepExplosions ^^ 59) [?e] = [(growExplosion ^^ 59) ?e]" by simp
  from explosion_envelope [where expl = ?e and n = 60 and k = 60] born
  have k60: "(stepExplosions ^^ 60) [?e] = []" by simp
  from explosion_envelope [where expl = ?e and n = 60 and k = 29] born
  have "e_radius ((growExplosion ^^ Suc 29) ?e) = envelope 60 46 (real (Suc 29))" by simp
  with env have peak: "e_radius ((growExplosion ^^ 30) ?e) = 46" by simp
  from env k59 k60 peak show ?thesis by simp
qed

section \<open>What an explosion can change\<close>

lemma explosionsPhase_frame:
  "cities (explosionsPhase s) = cities s \<and> turrets (explosionsPhase s) = turrets s \<and>
   missiles (explosionsPhase s) = missiles s"
  by (simp add: explosionsPhase_char)

lemma phases_cities [simp]:
  "cities (spawnPhase time d s) = cities s"
  "cities (missilesPhase s) = cities s"
  "cities (explosionsPhase s) = cities s"
  "cities (checkWinLoss sc s) = cities s"
  by (simp_all add: spawnPhase_def spawnRocket_def Let_def missilesPhase_def
      explosionsPhase_char checkWinLoss_def split: prod.splits)

lemma update_cities_playing:
  "gameState s = PLAYING \<Longrightarrow>
   cities (update time d s) = cities (rocketsPhase (spawnPhase time d s))"
  by (simp add: update_playing)

lemma update_turrets_playing:
  "gameState s = PLAYING \<Longrightarrow>
   turrets (update time d s) = turrets (rocketsPhase (spawnPhase time d s))"
  by (simp add: update_playing)

lemma city_lost_by_impact:
  assumes "i < length (cities s)" and "c_active (cities s ! i)"
    and "\<not> c_active (cities (update time d s) ! i)"
  shows "\<exists>rocket\<in>set (impacts (rockets (spawnPhase time d s))). nearCity (cities s ! i) rocket"
proof (cases "gameState s = PLAYING")
  case True
  with assms show ?thesis
    by (auto simp: update_cities_playing rocketsPhase_char split: if_splits)
next
  case False
  with assms show ?thesis by (simp add: update_def)
qed

lemma turret_lost_by_impact:
  assumes "i < length (turrets s)" and "t_active (turrets s ! i)"
    and "\<not> t_active (turrets (update time d s) ! i)"
  shows "\<exists>rocket\<in>set (impacts (rockets (spawnPhase time d s))). nearTurret (turrets s ! i) rocket"
proof (cases "gameState s = PLAYING")
  case True
  with assms show ?thesis
    by (auto simp: update_turrets_playing rocketsPhase_char split: if_splits)
next
  case False
  with assms show ?thesis by (simp add: update_def)
qed

text \<open>
  C10: the explosion phase leaves the cities, the turrets (their \<open>active\<close> flags and their
  ammo) and the missiles exactly as they are, whatever the explosions and their radii. Over
  a whole step in status \<open>PLAYING\<close> the cities and turrets are those the rocket phase
  produced, so a city or turret that a step deactivates lies in the box of a rocket that
  hit its target in that step.
\<close>

theorem explosions_affect_only_rockets:
  "cities (explosionsPhase s) = cities s \<and> turrets (explosionsPhase s) = turrets s \<and>
   missiles (explosionsPhase s) = missiles s \<and>
   (gameState s = PLAYING \<longrightarrow>
      cities (update time d s) = cities (rocketsPhase (spawnPhase time d s)) \<and>
      turrets (update time d s) = turrets (rocketsPhase (spawnPhase time d s))) \<and>
   (i < length (cities s) \<and> c_active (cities s ! i) \<and>
      \<not> c_active (cities (update time d s) ! i) \<longrightarrow>
      (\<exists>rocket\<in>set (impacts (rockets (spawnPhase time d s))). nearCity (cities s ! i) rocket)) \<and>
   (j < length (turrets s) \<and> t_active (turrets s ! j) \<and>
      \<not> t_active (turrets (update time d s) ! j) \<longrightarrow>
      (\<exists>rocket\<in>set (impacts (rockets (spawnPhase time d s))). nearTurret (turrets s ! j) rocket))"
  using explosionsPhase_frame [of s] update_cities_playing [of s time d]
    update_turrets_playing [of s time d] city_lost_by_impact [of i s time d]
    turret_lost_by_impact [of j s time d]
  by blast

theorem explosions_affect_only_rockets_witness:
  "gameState blastOverTurretState = PLAYING \<and>
   map e_radius (explosions (update 16 draws0 blastOverTurretState)) = [46] \<and>
   cities (update 16 draws0 blastOverTurretState) = initCities \<and>
   turrets (update 16 draws0 blastOverTurretState) = initTurrets \<and>
   t_active (turrets lastTurretState ! 1) \<and>
   \<not> t_active (turrets (update 16 draws0 lastTurretState) ! 1) \<and>
   (\<exists>rocket\<in>set (impacts (rockets (spawnPhase 16 draws0 lastTurretState))).
      nearTurret (turrets lastTurretState ! 1) rocket)"
proof -
  let ?s = blastOverTurretState
  have playing: "gameState ?s = PLAYING"
    by (simp add: blastOverTurretState_def)
  have nospawn: "spawnPhase 16 draws0 ?s = ?s"
    by (simp add: spawnPhase_def spawnRate_def blastOverTurretState_def)
  have norocket: "rocketsPhase ?s = ?s"
    by (simp add: rocketsPhase_def blastOverTurretState_def)
  from explosions_affect_only_rockets [where s = ?s and time = 16 and d = draws0] playing
  have "cities (update 16 draws0 ?s) = cities (rocketsPhase (spawnPhase 16 draws0 ?s))"
    and "turrets (update 16 draws0 ?s) = turrets (rocketsPhase (spawnPhase 16 draws0 ?s))"
    by blast+
  then have kept: "cities (update 16 draws0 ?s) = initCities"
    "turrets (update 16 draws0 ?s) = initTurrets"
    unfolding nospawn norocket by (simp_all add: blastOverTurretState_def)
  have radius: "map e_radius (explosions (update 16 draws0 ?s)) = [46]"
    by (simp add: blastOverTurretState_def initTurrets_def step_defs const_defs)
  have before: "1 < length (turrets lastTurretState) \<and> t_active (turrets lastTurretState ! 1)"
    by (simp add: lastTurretState_def initTurrets_def)
  have after: "\<not> t_active (turrets (update 16 draws0 lastTurretState) ! 1)"
    by (simp add: lastTurretState_def initTurrets_def initCities_def step_defs const_defs)
  from explosions_affect_only_rockets [where s = lastTurretState and time = 16 and d = draws0
      and j = 1] before after
  have "\<exists>rocket\<in>set (impacts (rockets (spawnPhase 16 draws0 lastTurretState))).
      nearTurret (turrets lastTurretState ! 1) rocket"
    by blast
  with playing radius kept before after show ?thesis by blast
qed

section \<open>Spawning\<close>

lemma random_index:
  assumes "0 \<le> u" and "u < 1" and "0 < n"
  shows "nat \<lfloor>u * real n\<rfloor> < n"
proof -
  from assms have "u * real n < real n" by simp
  then have "\<lfloor>u * real n\<rfloor> < int n" by (simp add: floor_less_iff)
  moreover from assms have "0 \<le> \<lfloor>u * real n\<rfloor>" by simp
  ultimately show ?thesis by linarith
qed

lemma Rep_random01_bounds: "0 \<le> Rep_random01 u \<and> Rep_random01 u < 1"
  using Rep_random01 [of u] by simp

lemma spawnTargets_empty:
  "spawnTargets s = [] \<longleftrightarrow>
     (\<forall>city\<in>set (cities s). \<not> c_active city) \<and> (\<forall>turret\<in>set (turrets s). \<not> t_active turret)"
  by (auto simp: spawnTargets_def filter_empty_conv)

lemma spawnRocket_none: "spawnTargets s = [] \<Longrightarrow> spawnRocket d s = s"
  by (simp add: spawnRocket_def)

lemma spawnRocket_some:
  assumes "spawnTargets s \<noteq> []"
  shows "\<exists>rocket. spawnRocket d s = s\<lparr>rockets := rockets s @ [rocket]\<rparr> \<and>
           (r_targetX rocket, r_targetY rocket) \<in> set (spawnTargets s) \<and>
           r_y rocket = - 20 \<and> 0 \<le> r_x rocket \<and> r_x rocket < GAME_WIDTH \<and>
           ROCKET_SPEED_MIN \<le> r_speed rocket \<and> r_speed rocket < ROCKET_SPEED_MAX"
proof -
  let ?n = "length (spawnTargets s)"
  let ?i = "nat \<lfloor>Rep_random01 (u_target d) * real ?n\<rfloor>"
  from assms have "0 < ?n" by simp
  then have "?i < ?n"
    using Rep_random01_bounds [of "u_target d"] by (intro random_index) simp_all
  then have target: "spawnTargets s ! ?i \<in> set (spawnTargets s)" by simp
  have x: "0 \<le> Rep_random01 (u_startX d) * GAME_WIDTH"
    "Rep_random01 (u_startX d) * GAME_WIDTH < GAME_WIDTH"
    using Rep_random01_bounds [of "u_startX d"] by (simp_all add: GAME_WIDTH_def)
  have v: "ROCKET_SPEED_MIN \<le>
      ROCKET_SPEED_MIN + Rep_random01 (u_speed d) * (ROCKET_SPEED_MAX - ROCKET_SPEED_MIN)"
    "ROCKET_SPEED_MIN + Rep_random01 (u_speed d) * (ROCKET_SPEED_MAX - ROCKET_SPEED_MIN)
       < ROCKET_SPEED_MAX"
    using Rep_random01_bounds [of "u_speed d"]
    by (simp_all add: ROCKET_SPEED_MIN_def ROCKET_SPEED_MAX_def)
  let ?target = "spawnTargets s ! ?i"
  let ?x = "Rep_random01 (u_startX d) * GAME_WIDTH"
  let ?rocket = "\<lparr>r_x = ?x, r_y = - 20, r_targetX = fst ?target, r_targetY = snd ?target,
      r_speed = ROCKET_SPEED_MIN
                  + Rep_random01 (u_speed d) * (ROCKET_SPEED_MAX - ROCKET_SPEED_MIN),
      r_angle = atan2 (snd ?target - (- 20)) (fst ?target - ?x)\<rparr>"
  from assms have "spawnRocket d s = s\<lparr>rockets := rockets s @ [?rocket]\<rparr>"
    by (simp add: spawnRocket_def Let_def)
  moreover from target have "(r_targetX ?rocket, r_targetY ?rocket) \<in> set (spawnTargets s)"
    by simp
  moreover from x v have "r_y ?rocket = - 20 \<and> 0 \<le> r_x ?rocket \<and> r_x ?rocket < GAME_WIDTH \<and>
      ROCKET_SPEED_MIN \<le> r_speed ?rocket \<and> r_speed ?rocket < ROCKET_SPEED_MAX"
    by simp
  ultimately show ?thesis by blast
qed

lemma Rep_random01_Abs: "0 \<le> u \<Longrightarrow> u < 1 \<Longrightarrow> Rep_random01 (Abs_random01 u) = u"
  by (simp add: Abs_random01_inverse)

lemma initCities_eq:
  "initCities =
     [\<lparr>c_x = 100, c_y = 580, c_active = True\<rparr>, \<lparr>c_x = 200, c_y = 580, c_active = True\<rparr>,
      \<lparr>c_x = 400, c_y = 580, c_active = True\<rparr>, \<lparr>c_x = 500, c_y = 580, c_active = True\<rparr>,
      \<lparr>c_x = 700, c_y = 580, c_active = True\<rparr>, \<lparr>c_x = 800, c_y = 580, c_active = True\<rparr>]"
  by (simp add: initCities_def cityX_def citySpacing_def const_defs upt_rec)

text \<open>
  A spawn on a fresh game with the draws \<open>1/8\<close>, \<open>0\<close> and \<open>1/2\<close>: the rocket starts at
  \<open>(100, - 20)\<close>, straight above the first city, which it targets at speed 1.
\<close>

lemma spawnRocket_example:
  "spawnRocket \<lparr>u_startX = Abs_random01 (1 / 8), u_target = Abs_random01 0,
                 u_speed = Abs_random01 (1 / 2)\<rparr> (initGame 0 mounted) =
     (initGame 0 mounted)\<lparr>rockets :=
        [\<lparr>r_x = 100, r_y = - 20, r_targetX = 100, r_targetY = 580, r_speed = 1,
          r_angle = pi / 2\<rparr>]\<rparr>"
  by (simp add: spawnRocket_def spawnTargets_def initGame_def initCities_eq initTurrets_def
      Rep_random01_Abs atan2_def const_defs Let_def)

lemma phases_lastSpawnTime [simp]:
  "lastSpawnTime (rocketsPhase s) = lastSpawnTime s"
  "lastSpawnTime (missilesPhase s) = lastSpawnTime s"
  "lastSpawnTime (explosionsPhase s) = lastSpawnTime s"
  "lastSpawnTime (checkWinLoss sc s) = lastSpawnTime s"
  by (simp_all add: rocketsPhase_def missilesPhase_def explosionsPhase_def checkWinLoss_def
      Let_def split: prod.splits)

lemma update_lastSpawnTime:
  "gameState s = PLAYING \<Longrightarrow>
   lastSpawnTime (update time d s) =
     (if spawnRate (score s) < time - lastSpawnTime s then time else lastSpawnTime s)"
  by (simp add: update_playing) (simp add: spawnPhase_def)

lemma spawnRate_props:
  "500 \<le> spawnRate sc" "sc \<le> sc' \<Longrightarrow> spawnRate sc' \<le> spawnRate sc"
  by (simp_all add: spawnRate_def)

text \<open>
  C9: in a step in status \<open>PLAYING\<close> a spawn is attempted (and the time of the last spawn
  set to the time of the step) exactly when the time since the last spawn exceeds
  \<open>max 500 (2000 - (score / 100) * 100)\<close>; this interval is never below 500 and does not
  grow when the score grows. An attempt with no active city and no active turret returns
  the state unchanged; otherwise it appends exactly one rocket, which starts at height
  \<open>- 20\<close> with \<open>x\<close> in \<open>[0, GAME_WIDTH)\<close> and is aimed at the position of an active city or
  active turret.
\<close>

theorem spawn_schedule:
  "spawnRate sc = max 500 (2000 - (real_of_int sc / 100) * 100) \<and>
   500 \<le> spawnRate sc \<and>
   (sc \<le> sc' \<longrightarrow> spawnRate sc' \<le> spawnRate sc) \<and>
   spawnPhase time d s =
     (if spawnRate (score s) < time - lastSpawnTime s
      then (spawnRocket d s)\<lparr>lastSpawnTime := time\<rparr> else s) \<and>
   (gameState s = PLAYING \<longrightarrow>
      update time d s =
        checkWinLoss (score s)
          (explosionsPhase (missilesPhase (rocketsPhase (spawnPhase time d s)))) \<and>
      lastSpawnTime (update time d s) =
        (if spawnRate (score s) < time - lastSpawnTime s then time else lastSpawnTime s)) \<and>
   ((\<forall>city\<in>set (cities s). \<not> c_active city) \<and> (\<forall>turret\<in>set (turrets s). \<not> t_active turret) \<longrightarrow>
      spawnRocket d s = s) \<and>
   ((\<exists>city\<in>set (cities s). c_active city) \<or> (\<exists>turret\<in>set (turrets s). t_active turret) \<longrightarrow>
      (\<exists>rocket. spawnRocket d s = s\<lparr>rockets := rockets s @ [rocket]\<rparr> \<and>
         (r_targetX rocket, r_targetY rocket) \<in> set (spawnTargets s) \<and>
         r_y rocket = - 20 \<and> 0 \<le> r_x rocket \<and> r_x rocket < GAME_WIDTH \<and>
         ROCKET_SPEED_MIN \<le> r_speed rocket \<and> r_speed rocket < ROCKET_SPEED_MAX))"
proof (intro conjI impI)
  show "spawnRate sc = max 500 (2000 - (real_of_int sc / 100) * 100)"
    by (simp add: spawnRate_def)
  show "500 \<le> spawnRate sc" by (rule spawnRate_props)
  show "spawnRate sc' \<le> spawnRate sc" if "sc \<le> sc'" using that by (rule spawnRate_props)
  show "spawnPhase time d s =
     (if spawnRate (score s) < time - lastSpawnTime s
      then (spawnRocket d s)\<lparr>lastSpawnTime := time\<rparr> else s)"
    by (simp add: spawnPhase_def)
  show "update time d s =
        checkWinLoss (score s)
          (explosionsPhase (missilesPhase (rocketsPhase (spawnPhase time d s))))"
    if "gameState s = PLAYING" using that by (rule update_playing)
  show "lastSpawnTime (update time d s) =
        (if spawnRate (score s) < time - lastSpawnTime s then time else lastSpawnTime s)"
    if "gameState s = PLAYING" using that by (rule update_lastSpawnTime)
  show "spawnRocket d s = s"
    if "(\<forall>city\<in>set (cities s). \<not> c_active city) \<and> (\<forall>turret\<in>set (turrets s). \<not> t_active turret)"
    using that by (simp add: spawnRocket_none spawnTargets_empty)
  show "\<exists>rocket. spawnRocket d s = s\<lparr>rockets := rockets s @ [rocket]\<rparr> \<and>
         (r_targetX rocket, r_targetY rocket) \<in> set (spawnTargets s) \<and>
         r_y rocket = - 20 \<and> 0 \<le> r_x rocket \<and> r_x rocket < GAME_WIDTH \<and>
         ROCKET_SPEED_MIN \<le> r_speed rocket \<and> r_speed rocket < ROCKET_SPEED_MAX"
    if "(\<exists>city\<in>set (cities s). c_active city) \<or> (\<exists>turret\<in>set (turrets s). t_active turret)"
    using that by (intro spawnRocket_some) (auto simp: spawnTargets_empty)
qed

theorem spawn_schedule_witness:
  "spawnRate 0 = 2000 \<and> spawnRate 1000 = 1000 \<and> spawnRate 1500 = 500 \<and> spawnRate 3000 = 500 \<and>
   gameState (initGame 0 mounted) = PLAYING \<and>
   lastSpawnTime (update 2000 draws0 (initGame 0 mounted)) = 0 \<and>
   lastSpawnTime (update 2001 draws0 (initGame 0 mounted)) = 2001 \<and>
   length (rockets (spawnRocket draws0 (initGame 0 mounted))) = 1 \<and>
   spawnRocket draws0 ((initGame 0 mounted)\<lparr>cities := [], turrets := []\<rparr>) =
     (initGame 0 mounted)\<lparr>cities := [], turrets := []\<rparr>"
proof -
  let ?s = "initGame 0 mounted"
  let ?s' = "?s\<lparr>cities := [], turrets := []\<rparr>"
  have playing: "gameState ?s = PLAYING" by (simp add: initGame_def)
  have rates: "spawnRate 0 = 2000" "spawnRate 1000 = 1000" "spawnRate 1500 = 500"
    "spawnRate 3000 = 500"
    using spawn_schedule [where sc = 0] spawn_schedule [where sc = 1000]
      spawn_schedule [where sc = 1500] spawn_schedule [where sc = 3000]
    by simp_all
  have start: "score ?s = 0" "lastSpawnTime ?s = 0" "rockets ?s = []"
    by (simp_all add: initGame_def)
  from spawn_schedule [where s = ?s and time = 2000 and d = draws0] playing
  have t2000: "lastSpawnTime (update 2000 draws0 ?s) = 0"
    by (simp add: start rates)
  from spawn_schedule [where s = ?s and time = 2001 and d = draws0] playing
  have t2001: "lastSpawnTime (update 2001 draws0 ?s) = 2001"
    by (simp add: start rates)
  have "\<exists>turret\<in>set (turrets ?s). t_active turret"
    by (simp add: initGame_def initTurrets_def)
  with spawn_schedule [where s = ?s and d = draws0]
  obtain rocket where "spawnRocket draws0 ?s = ?s\<lparr>rockets := rockets ?s @ [rocket]\<rparr>"
    by blast
  then have one: "length (rockets (spawnRocket draws0 ?s)) = 1"
    by (simp add: start)
  have "(\<forall>city\<in>set (cities ?s'). \<not> c_active city) \<and>
        (\<forall>turret\<in>set (turrets ?s'). \<not> t_active turret)"
    by simp
  with spawn_schedule [where s = ?s' and d = draws0]
  have none: "spawnRocket draws0 ?s' = ?s'" by blast
  from rates playing t2000 t2001 one none show ?thesis by blast
qed

section \<open>Missiles in flight, and the lifetimes of explosions\<close>

lemma updateMissiles_char:
  "updateMissiles ms es =
     (filter (\<lambda>missile. \<not> num_ge (m_progress missile) (Fin 1)) (map moveMissile ms),
      es @ map detonation
             (filter (\<lambda>missile. num_ge (m_progress missile) (Fin 1)) (map moveMissile ms)))"
  by (induction ms arbitrary: es) (simp_all add: Let_def)

lemma missilesPhase_char:
  "missilesPhase s =
     s\<lparr>missiles := filter (\<lambda>missile. \<not> num_ge (m_progress missile) (Fin 1))
                      (map moveMissile (missiles s)),
       explosions := explosions s @ map detonation
                      (filter (\<lambda>missile. num_ge (m_progress missile) (Fin 1))
                         (map moveMissile (missiles s)))\<rparr>"
  by (simp add: missilesPhase_def updateMissiles_char)

text \<open>
  A missile fired from \<open>(40, 570)\<close> at \<open>(40, 559)\<close> has 11 units to fly: it is half way
  after one missile update and detonates in the second.
\<close>

lemma missile_flight_example:
  "updateMissiles
     [\<lparr>m_x = Fin 40, m_y = Fin 570, m_targetX = 40, m_targetY = 559, m_startX = 40,
       m_startY = 570, m_progress = Fin 0, m_distance = 11\<rparr>] [] =
     ([\<lparr>m_x = Fin 40, m_y = Fin 564.5, m_targetX = 40, m_targetY = 559, m_startX = 40,
        m_startY = 570, m_progress = Fin 0.5, m_distance = 11\<rparr>], [])"
  "updateMissiles
     [\<lparr>m_x = Fin 40, m_y = Fin 564.5, m_targetX = 40, m_targetY = 559, m_startX = 40,
       m_startY = 570, m_progress = Fin 0.5, m_distance = 11\<rparr>] [] =
     ([], [\<lparr>e_x = 40, e_y = 559, e_radius = 0, e_maxRadius = 46, e_life = 0, e_maxLife = 60\<rparr>])"
  by (simp_all add: moveMissile_def divide_real_def detonation_def const_defs Let_def)

lemma explosions_wf_update: "explosions_wf s \<Longrightarrow> explosions_wf (update time d s)"
proof (cases "gameState s = PLAYING")
  case True
  assume "explosions_wf s"
  then have "explosions_wf (spawnPhase time d s)"
    by (simp add: explosions_wf_def spawnPhase_def spawnRocket_def Let_def)
  then have "explosions_wf (rocketsPhase (spawnPhase time d s))"
    by (auto simp: explosions_wf_def rocketsPhase_char impactExplosion_def)
  then have "explosions_wf (missilesPhase (rocketsPhase (spawnPhase time d s)))"
    by (auto simp: explosions_wf_def missilesPhase_char detonation_def EXPLOSION_DURATION_def)
  then have "explosions_wf
      (explosionsPhase (missilesPhase (rocketsPhase (spawnPhase time d s))))"
    by (auto simp: explosions_wf_def explosionsPhase_char)
  then show ?thesis using True
    by (simp add: update_playing) (simp add: explosions_wf_def checkWinLoss_def Let_def)
next
  case False
  assume "explosions_wf s"
  with False show ?thesis by (simp add: update_def)
qed

lemma explosions_wf_handle: "explosions_wf s \<Longrightarrow> explosions_wf (handle s e)"
proof (cases e)
  case (Fire targetX targetY)
  assume "explosions_wf s"
  then show ?thesis unfolding Fire
    by (simp add: explosions_wf_def fireMissile_def Let_def split: option.splits)
next
  case (Frame time d)
  assume "explosions_wf s"
  then show ?thesis unfolding Frame by (simp add: explosions_wf_update)
qed (simp_all add: explosions_wf_def initGame_def)

lemma explosions_wf_run: "explosions_wf s \<Longrightarrow> explosions_wf (run s evs)"
  by (induction evs arbitrary: s) (simp_all add: run_def explosions_wf_handle)

lemma explosions_wf_mounted: "explosions_wf (run mounted evs)"
  by (rule explosions_wf_run) (simp add: explosions_wf_def mounted_def)

end
